theory Spec2Isabelle
  imports Main
begin

section \<open>Go values that main.go handles\<close>

text \<open>
  A Go \<^verbatim>\<open>error\<close> is \<open>error option\<close>: \<open>None\<close> is \<^verbatim>\<open>nil\<close>. \<open>ErrNotExist\<close> stands
  for the errors on which \<^verbatim>\<open>os.IsNotExist\<close> answers true, \<open>ErrPermission\<close> for a
  permission failure, \<open>ErrorString\<close> for the value of \<^verbatim>\<open>errors.New\<close> (and of
  \<^verbatim>\<open>fmt.Errorf\<close> with \<^verbatim>\<open>%v\<close>), \<open>WrapError\<close> for \<^verbatim>\<open>fmt.Errorf\<close> with \<^verbatim>\<open>%w\<close>:
  the message and the error it wraps.
\<close>

datatype error = ErrNotExist | ErrPermission | ErrorString string | WrapError string error

fun Error :: "error \<Rightarrow> string" where
  "Error ErrNotExist = ''file does not exist''"
| "Error ErrPermission = ''permission denied''"
| "Error (ErrorString s) = s"
| "Error (WrapError s e) = s"

definition errors_New :: "string \<Rightarrow> error" where
  "errors_New s = ErrorString s"

definition os_IsNotExist :: "error option \<Rightarrow> bool" where
  "os_IsNotExist err = (case err of None \<Rightarrow> False | Some e \<Rightarrow> e = ErrNotExist)"

text \<open>
  Modelled from the spec: the types \<^verbatim>\<open>config.Profile\<close> and \<^verbatim>\<open>config.Config\<close> are
  declared in pkg/config, which is not among the sources. The fields are the ones
  main.go reads and writes, and the ones of the spec's data model (a profile has a url,
  a username and a password; a configuration has profiles by name and a default
  profile). A Go map may be \<^verbatim>\<open>nil\<close>: \<open>Profiles c = None\<close>. Reading a nil map finds
  nothing; assigning to it panics.
\<close>

record Profile =
  URL :: string
  Username :: string
  Password :: string

record Config =
  Profiles :: "(string \<rightharpoonup> Profile) option"
  DefaultProfile :: string

definition defaultInitialProfile :: Profile where
  "defaultInitialProfile =
     \<lparr>URL = ''https://demo.parseable.com'', Username = ''admin'', Password = ''admin''\<rparr>"

definition versionFlag :: string where
  "versionFlag = ''version''"

definition versionFlagShort :: string where
  "versionFlagShort = ''v''"

section \<open>The process\<close>

text \<open>
  A telemetry task is what the goroutine of a post-run hook passes to
  \<^verbatim>\<open>analytics.PostRunAnalytics\<close>: the command that ran, the category string of the
  hook, and the arguments.
\<close>

record task =
  command :: string
  category :: string
  arguments :: "string list"

text \<open>
  What the process does that can be seen from outside, in order: a line printed by
  \<^verbatim>\<open>fmt.Printf\<close>, a configuration handed to the store, the calls of the functions of
  pb/cmd and pkg/analytics, the help text printed by the command framework, the call of
  the body of the command, and the return of \<^verbatim>\<open>wg.Wait\<close>.
\<close>

datatype event =
    EvPrintf string
  | EvWriteConfig Config
  | EvPreRunDefaultProfile
  | EvCheckAndCreateULID
  | EvHelp
  | EvRun
  | EvPrintVersion
  | EvPostRunAnalytics task
  | EvWait

text \<open>
  The state of one process: its environment variables, the counter of the global
  \<^verbatim>\<open>var wg sync.WaitGroup\<close>, the goroutines started and not yet finished, the events so
  far, and the configuration file it sees (\<open>None\<close>: no file).
\<close>

record Proc =
  environ :: "string \<rightharpoonup> string"
  wg :: nat
  goroutines :: "task list"
  trace :: "event list"
  config_file :: "Config option"

definition emit :: "event \<Rightarrow> Proc \<Rightarrow> Proc" where
  "emit ev p = p\<lparr>trace := trace p @ [ev]\<rparr>"

text \<open>
  How the process ends: \<^verbatim>\<open>main\<close> returns (status 0), \<^verbatim>\<open>os.Exit\<close>, a runtime panic,
  or the fatal error of the runtime when \<^verbatim>\<open>main\<close> blocks and no goroutine is left to run
  (both end the process with status 2).
\<close>

datatype exit = Returned | OsExit nat | Panicked string | Deadlocked

fun exit_status :: "exit \<Rightarrow> nat" where
  "exit_status Returned = 0"
| "exit_status (OsExit n) = n"
| "exit_status (Panicked msg) = 2"
| "exit_status Deadlocked = 2"

text \<open>
  The functions of pkg/config, pb/cmd and pkg/analytics that main.go calls are not among
  the sources; main.go is modelled over any such functions.
\<close>

record Deps =
  ReadConfigFromFile :: "Proc \<Rightarrow> Config option \<times> error option"
  WriteConfigToFile :: "Config \<Rightarrow> Proc \<Rightarrow> error option \<times> Proc"
  PreRunDefaultProfile :: "Proc \<Rightarrow> error option \<times> Proc"
  CheckAndCreateULID :: "Proc \<Rightarrow> error option \<times> Proc"

subsection \<open>Bootstrap: lines 315 to 347 of main\<close>

text \<open>
  \<^verbatim>\<open>err = config.WriteConfigToFile(c); if err != nil { fmt.Printf(msg, err); os.Exit(1) }\<close>,
  where \<open>msg\<close> is the format up to \<^verbatim>\<open>%v\<close>. The result is \<open>Some\<close> when the process
  ends here.
\<close>

definition write_or_exit :: "Deps \<Rightarrow> string \<Rightarrow> Config \<Rightarrow> Proc \<Rightarrow> exit option \<times> Proc" where
  "write_or_exit d msg c p =
     (case WriteConfigToFile d c p of
        (Some err, p') \<Rightarrow> (Some (OsExit 1), emit (EvPrintf (msg @ Error err @ [CHR 0x0A])) p')
      | (None, p') \<Rightarrow> (None, p'))"

text \<open>
  The else branch up to the write: \<open>Inl\<close> is the runtime panic of a nil
  \<^verbatim>\<open>previousConfig\<close> (the read \<^verbatim>\<open>previousConfig.Profiles\<close>) or of a nil map (the
  lookup finds nothing, so the assignment of the second branch runs, and panics).
\<close>

definition update_demo :: "Config option \<Rightarrow> string + Config" where
  "update_demo previousConfig =
     (case previousConfig of
        None \<Rightarrow> Inl ''invalid memory address or nil pointer dereference''
      | Some c \<Rightarrow>
          (case Profiles c of
             None \<Rightarrow> Inl ''assignment to entry in nil map''
           | Some m \<Rightarrow>
               (case m ''demo'' of
                  Some demoProfile \<Rightarrow>
                    Inr (c\<lparr>Profiles := Some (m(''demo'' \<mapsto>
                      demoProfile\<lparr>URL := ''http://demo.parseable.com'',
                        Username := ''admin'', Password := ''admin''\<rparr>))\<rparr>)
                | None \<Rightarrow>
                    Inr (c\<lparr>Profiles := Some (m(''demo'' \<mapsto> defaultInitialProfile)),
                      DefaultProfile := ''demo''\<rparr>))))"

definition bootstrap :: "Deps \<Rightarrow> Proc \<Rightarrow> exit option \<times> Proc" where
  "bootstrap d p =
     (case ReadConfigFromFile d p of
        (previousConfig, err) \<Rightarrow>
          if os_IsNotExist err then
            write_or_exit d ''failed to write to file ''
              \<lparr>Profiles = Some [''demo'' \<mapsto> defaultInitialProfile], DefaultProfile = ''demo''\<rparr> p
          else
            (case update_demo previousConfig of
               Inl msg \<Rightarrow> (Some (Panicked msg), p)
             | Inr c \<Rightarrow> write_or_exit d ''failed to write to existing file '' c p))"

subsection \<open>The telemetry barrier\<close>

definition os_Getenv :: "Proc \<Rightarrow> string \<Rightarrow> string" where
  "os_Getenv p k = (case environ p k of None \<Rightarrow> [] | Some v \<Rightarrow> v)"

text \<open>
  The goroutine of a post-run hook: \<^verbatim>\<open>defer wg.Done()\<close> around the call of
  \<^verbatim>\<open>analytics.PostRunAnalytics\<close>, which is taken to return. A goroutine is started
  only after \<^verbatim>\<open>wg.Add(1)\<close>, so the counter is positive when it is done.
\<close>

definition goroutine :: "task \<Rightarrow> Proc \<Rightarrow> Proc" where
  "goroutine t p = (emit (EvPostRunAnalytics t) p)\<lparr>wg := wg p - 1\<rparr>"

text \<open>
  \<^verbatim>\<open>wg.Wait()\<close> blocks until the counter is zero. While it blocks, the goroutines that
  were started run, here in the order of their start (what the state is when the wait
  returns does not depend on the order). \<open>await ts p\<close> is the wait with \<open>ts\<close> still to
  run: with the counter at zero it returns at once, whatever is still running; with a
  positive counter and nothing left to run it blocks for ever, which is the \<open>False\<close>.
\<close>

fun await :: "task list \<Rightarrow> Proc \<Rightarrow> bool \<times> Proc" where
  "await [] p = (wg p = 0, p\<lparr>goroutines := []\<rparr>)"
| "await (t # ts) p =
     (if wg p = 0 then (True, p\<lparr>goroutines := t # ts\<rparr>) else await ts (goroutine t p))"

definition wg_Wait :: "Proc \<Rightarrow> bool \<times> Proc" where
  "wg_Wait p =
     (case await (goroutines p) p of
        (True, p') \<Rightarrow> (True, emit EvWait p')
      | (False, p') \<Rightarrow> (False, p'))"

text \<open>
  The body shared by the eleven \<^verbatim>\<open>PersistentPostRun\<close> hooks; they differ in the
  category string only.
\<close>

definition postRun :: "string \<Rightarrow> string \<Rightarrow> string list \<Rightarrow> Proc \<Rightarrow> Proc" where
  "postRun cat cmd args p =
     (if os_Getenv p ''PB_ANALYTICS'' = ''disable'' then p
      else p\<lparr>wg := wg p + 1,
             goroutines := goroutines p @ [\<lparr>command = cmd, category = cat, arguments = args\<rparr>]\<rparr>)"

text \<open>The commands that main.go declares.\<close>

datatype cmd = Cli | ProfileCmd | Schema | User | Role | Stream | Query | Cluster | ListCmd
  | ShowCmd | Uninstall

fun hook_category :: "cmd \<Rightarrow> string" where
  "hook_category Cli = ''cli''"
| "hook_category ProfileCmd = ''profile''"
| "hook_category Schema = ''generate''"
| "hook_category User = ''user''"
| "hook_category Role = ''role''"
| "hook_category Stream = ''stream''"
| "hook_category Query = ''query''"
| "hook_category Cluster = ''install''"
| "hook_category ListCmd = ''install''"
| "hook_category ShowCmd = ''install''"
| "hook_category Uninstall = ''uninstall''"

definition PersistentPostRun :: "cmd \<Rightarrow> string \<Rightarrow> string list \<Rightarrow> Proc \<Rightarrow> Proc" where
  "PersistentPostRun c = postRun (hook_category c)"

subsection \<open>The hooks before the command\<close>

definition combinedPreRun :: "Deps \<Rightarrow> Proc \<Rightarrow> error option \<times> Proc" where
  "combinedPreRun d p =
     (case PreRunDefaultProfile d p of
        (Some err, p1) \<Rightarrow>
          (Some (WrapError (''error initializing default profile: '' @ Error err) err), p1)
      | (None, p1) \<Rightarrow>
          (case CheckAndCreateULID d p1 of
             (Some err, p2) \<Rightarrow>
               (Some (ErrorString (''error while creating ulid: '' @ Error err)), p2)
           | (None, p2) \<Rightarrow> (None, p2)))"

fun PersistentPreRunE :: "cmd \<Rightarrow> Deps \<Rightarrow> Proc \<Rightarrow> error option \<times> Proc" where
  "PersistentPreRunE Cli d = CheckAndCreateULID d"
| "PersistentPreRunE c d = combinedPreRun d"

subsection \<open>The root command\<close>

text \<open>
  The flags of the root command after parsing: \<^verbatim>\<open>GetBool\<close> answers the value of a
  declared bool flag, and false with an error for a name that is not declared. main
  declares \<^verbatim>\<open>version\<close> (short \<^verbatim>\<open>v\<close>) with default false.
\<close>

definition GetBool :: "(string \<rightharpoonup> bool) \<Rightarrow> string \<Rightarrow> bool \<times> error option" where
  "GetBool fl name =
     (case fl name of
        None \<Rightarrow> (False, Some (ErrorString (''flag accessed but not defined: '' @ name)))
      | Some b \<Rightarrow> (b, None))"

definition cli_RunE :: "(string \<rightharpoonup> bool) \<Rightarrow> Proc \<Rightarrow> error option \<times> Proc" where
  "cli_RunE fl p =
     (if fst (GetBool fl versionFlag) then (None, emit EvPrintVersion p)
      else (Some (errors_New ''no command or flag supplied''), p))"

subsection \<open>main after the bootstrap: lines 349 to 354\<close>

text \<open>\<open>execute\<close> is \<^verbatim>\<open>cli.Execute()\<close>.\<close>

definition main :: "Deps \<Rightarrow> (Proc \<Rightarrow> error option \<times> Proc) \<Rightarrow> Proc \<Rightarrow> exit \<times> Proc" where
  "main d execute p =
     (case bootstrap d p of
        (Some e, p1) \<Rightarrow> (e, p1)
      | (None, p1) \<Rightarrow>
          (case execute p1 of
             (Some err, p2) \<Rightarrow> (OsExit 1, p2)
           | (None, p2) \<Rightarrow>
               (case wg_Wait p2 of
                  (True, p3) \<Rightarrow> (Returned, p3)
                | (False, p3) \<Rightarrow> (Deadlocked, p3))))"

subsection \<open>Dispatch by the command framework\<close>

text \<open>
  The bodies that a dispatch can reach: \<^verbatim>\<open>cli.RunE\<close> with the parsed flags of the root,
  the \<^verbatim>\<open>Run\<close> that main gives to \<^verbatim>\<open>pb.VersionCmd\<close> (lines 305 to 307), and the body of
  a command of pb/cmd, which is not among the sources: it returns what the scenario says.
  The barrier \<^verbatim>\<open>wg\<close> is a variable of package main that no other package can name.
\<close>

datatype body = RootBody "string \<rightharpoonup> bool" | VersionBody | LeafBody "error option"

fun run_body :: "body \<Rightarrow> Proc \<Rightarrow> error option \<times> Proc" where
  "run_body (RootBody fl) p = cli_RunE fl p"
| "run_body VersionBody p = (None, emit EvPrintVersion p)"
| "run_body (LeafBody rb) p = (rb, p)"

text \<open>
  \<^verbatim>\<open>cli.Execute()\<close> belongs to the command framework (github.com/spf13/cobra), which
  main.go imports. What it does with the command line is one of three things
  (\<^verbatim>\<open>Command.ExecuteC\<close> and \<^verbatim>\<open>Command.execute\<close>):
  \<^item> \<open>Help\<close>: the help flag is set, or the command found has no body (as \<^verbatim>\<open>profile\<close>,
    \<^verbatim>\<open>query\<close> and the other groups of main.go, which set no \<^verbatim>\<open>Run\<close>): the help text
    is printed and nil is returned; no hook runs.
  \<^item> \<open>Usage err\<close>: no command is found for the arguments, a flag does not parse, or the
    arguments of the command are not valid: the error is returned; no hook runs.
  \<^item> \<open>Runnable c name args req b\<close>: the command \<open>name\<close> with body \<open>b\<close> is run with the
    arguments \<open>args\<close>; its nearest persistent hooks are those of \<open>c\<close>, the root itself or
    the group of main.go below which the command is attached (the commands of pb/cmd are
    taken to set no hook of their own). The framework runs the \<^verbatim>\<open>PersistentPreRunE\<close>
    hook, then checks the required flags and flag groups (\<open>req\<close> is the result), then
    calls the body, then runs the \<^verbatim>\<open>PersistentPostRun\<close> hook, and returns at the first
    error without running what follows.
\<close>

datatype dispatch = Help | Usage error | Runnable cmd string "string list" "error option" body

definition cobra_execute ::
  "(Proc \<Rightarrow> error option \<times> Proc) \<Rightarrow> error option \<Rightarrow> (Proc \<Rightarrow> error option \<times> Proc) \<Rightarrow>
   (Proc \<Rightarrow> Proc) \<Rightarrow> Proc \<Rightarrow> error option \<times> Proc" where
  "cobra_execute pre req run post p =
     (case pre p of
        (Some err, p1) \<Rightarrow> (Some err, p1)
      | (None, p1) \<Rightarrow>
          (case req of
             Some err \<Rightarrow> (Some err, p1)
           | None \<Rightarrow>
               (case run (emit EvRun p1) of
                  (Some err, p2) \<Rightarrow> (Some err, p2)
                | (None, p2) \<Rightarrow> (None, post p2))))"

fun Execute :: "Deps \<Rightarrow> dispatch \<Rightarrow> Proc \<Rightarrow> error option \<times> Proc" where
  "Execute d Help p = (None, emit EvHelp p)"
| "Execute d (Usage err) p = (Some err, p)"
| "Execute d (Runnable c name args req b) p =
     cobra_execute (PersistentPreRunE c d) req (run_body b) (PersistentPostRun c name args) p"

text \<open>The whole process: main with the dispatch of the framework.\<close>

definition pb :: "Deps \<Rightarrow> dispatch \<Rightarrow> Proc \<Rightarrow> exit \<times> Proc" where
  "pb d disp = main d (Execute d disp)"

subsection \<open>The functions that are not among the sources\<close>

text \<open>
  A function of another package, seen from main.go: it is called (the event) and it
  returns what the scenario says.
\<close>

definition extern :: "event \<Rightarrow> error option \<Rightarrow> Proc \<Rightarrow> error option \<times> Proc" where
  "extern ev r p = (r, emit ev p)"

text \<open>
  A scenario fixes what each of them returns: \<open>rd\<close> by \<^verbatim>\<open>ReadConfigFromFile\<close>, \<open>wr\<close>
  by \<^verbatim>\<open>WriteConfigToFile\<close>, \<open>pre\<close> by \<^verbatim>\<open>PreRunDefaultProfile\<close>, \<open>ulid\<close> by
  \<^verbatim>\<open>CheckAndCreateULID\<close>.
\<close>

definition scripted ::
  "Config option \<times> error option \<Rightarrow> error option \<Rightarrow> error option \<Rightarrow> error option \<Rightarrow> Deps" where
  "scripted rd wr pre ulid =
     \<lparr>ReadConfigFromFile = (\<lambda>p. rd),
      WriteConfigToFile = (\<lambda>c. extern (EvWriteConfig c) wr),
      PreRunDefaultProfile = extern EvPreRunDefaultProfile pre,
      CheckAndCreateULID = extern EvCheckAndCreateULID ulid\<rparr>"

text \<open>
  Modelled from the spec: the store behind \<^verbatim>\<open>config.ReadConfigFromFile\<close> and
  \<^verbatim>\<open>config.WriteConfigToFile\<close> (pkg/config is not among the sources). Loading when
  nothing is persisted is the not-exist case; loading returns what was saved last
  (the spec's round trip); saving replaces what is persisted.
\<close>

definition store_Read :: "Proc \<Rightarrow> Config option \<times> error option" where
  "store_Read p =
     (case config_file p of None \<Rightarrow> (None, Some ErrNotExist) | Some c \<Rightarrow> (Some c, None))"

definition store_Write :: "Config \<Rightarrow> Proc \<Rightarrow> error option \<times> Proc" where
  "store_Write c p = (None, (emit (EvWriteConfig c) p)\<lparr>config_file := Some c\<rparr>)"

definition on_store :: "error option \<Rightarrow> error option \<Rightarrow> Deps" where
  "on_store pre ulid =
     \<lparr>ReadConfigFromFile = store_Read,
      WriteConfigToFile = store_Write,
      PreRunDefaultProfile = extern EvPreRunDefaultProfile pre,
      CheckAndCreateULID = extern EvCheckAndCreateULID ulid\<rparr>"

text \<open>A process at its start: no goroutine, nothing done yet.\<close>

definition start :: "(string \<rightharpoonup> string) \<Rightarrow> Config option \<Rightarrow> Proc" where
  "start env f = \<lparr>environ = env, wg = 0, goroutines = [], trace = [], config_file = f\<rparr>"

text \<open>The store after the bootstrap of one process that starts on the store \<open>f\<close>.\<close>

definition run_bootstrap :: "Config option \<Rightarrow> Config option" where
  "run_bootstrap f = config_file (snd (bootstrap (on_store None None) (start Map.empty f)))"

subsection \<open>Reading a trace\<close>

text \<open>The configurations handed to \<^verbatim>\<open>WriteConfigToFile\<close>, in order.\<close>

fun written :: "event list \<Rightarrow> Config list" where
  "written [] = []"
| "written (EvWriteConfig c # es) = c # written es"
| "written (e # es) = written es"

text \<open>The tasks that reached \<^verbatim>\<open>analytics.PostRunAnalytics\<close>, in order.\<close>

fun sent :: "event list \<Rightarrow> task list" where
  "sent [] = []"
| "sent (EvPostRunAnalytics t # es) = t # sent es"
| "sent (e # es) = sent es"

text \<open>\<open>before a b es\<close>: \<open>a\<close> occurs in \<open>es\<close>, and \<open>b\<close> occurs after its first occurrence.\<close>

fun before :: "event \<Rightarrow> event \<Rightarrow> event list \<Rightarrow> bool" where
  "before a b [] = False"
| "before a b (e # es) = (if e = a then b \<in> set es else before a b es)"

subsection \<open>The invariants of a configuration\<close>

definition has_demo :: "Config \<Rightarrow> bool" where
  "has_demo c = (case Profiles c of None \<Rightarrow> False | Some m \<Rightarrow> m ''demo'' \<noteq> None)"

definition default_ok :: "Config \<Rightarrow> bool" where
  "default_ok c =
     (DefaultProfile c \<noteq> [] \<and>
      (case Profiles c of None \<Rightarrow> False | Some m \<Rightarrow> m (DefaultProfile c) \<noteq> None))"

section \<open>Auxiliary facts\<close>

declare Execute.simps [simp del]

lemma written_append: "written (xs @ ys) = written xs @ written ys"
  by (induction xs rule: written.induct) simp_all

lemma sent_append: "sent (xs @ ys) = sent xs @ sent ys"
  by (induction xs rule: sent.induct) simp_all

lemma sent_map: "sent (map EvPostRunAnalytics ts) = ts"
  by (induction ts) simp_all

lemma count_Wait_map: "count_list (map EvPostRunAnalytics ts) EvWait = 0"
  by (induction ts) simp_all

lemma count_Wait_append: "count_list (xs @ ys) EvWait = count_list xs EvWait + count_list ys EvWait"
  by (induction xs) simp_all

lemma trace_emit: "trace (emit ev p) = trace p @ [ev]"
  by (simp add: emit_def)

lemma scripted_sel:
  "ReadConfigFromFile (scripted rd wr pre ulid) = (\<lambda>p. rd)"
  "WriteConfigToFile (scripted rd wr pre ulid) = (\<lambda>c. extern (EvWriteConfig c) wr)"
  "PreRunDefaultProfile (scripted rd wr pre ulid) = extern EvPreRunDefaultProfile pre"
  "CheckAndCreateULID (scripted rd wr pre ulid) = extern EvCheckAndCreateULID ulid"
  by (simp_all add: scripted_def)

subsection \<open>The bootstrap in a scenario and on the store\<close>

lemma write_or_exit_scripted:
  "write_or_exit (scripted rd wr pre ulid) msg c p =
     (case wr of
        None \<Rightarrow> (None, emit (EvWriteConfig c) p)
      | Some err \<Rightarrow>
          (Some (OsExit 1),
           emit (EvPrintf (msg @ Error err @ [CHR 0x0A])) (emit (EvWriteConfig c) p)))"
  by (simp add: write_or_exit_def scripted_sel extern_def split: option.splits)

lemma written_write_or_exit:
  "written (trace (snd (write_or_exit (scripted rd wr pre ulid) msg c p))) =
     written (trace p) @ [c]"
  by (simp add: write_or_exit_scripted trace_emit written_append split: option.splits)

lemma bootstrap_scripted:
  "bootstrap (scripted (pc, err) wr pre ulid) p =
     (if os_IsNotExist err then
        write_or_exit (scripted (pc, err) wr pre ulid) ''failed to write to file ''
          \<lparr>Profiles = Some [''demo'' \<mapsto> defaultInitialProfile], DefaultProfile = ''demo''\<rparr> p
      else
        (case update_demo pc of
           Inl msg \<Rightarrow> (Some (Panicked msg), p)
         | Inr c \<Rightarrow>
             write_or_exit (scripted (pc, err) wr pre ulid) ''failed to write to existing file '' c p))"
  by (simp add: bootstrap_def scripted_sel)

lemma write_or_exit_on_store:
  "write_or_exit (on_store pre ulid) msg c p =
     (None, (emit (EvWriteConfig c) p)\<lparr>config_file := Some c\<rparr>)"
  by (simp add: write_or_exit_def on_store_def store_Write_def)

lemma bootstrap_on_store:
  "bootstrap (on_store pre ulid) p =
     (case config_file p of
        None \<Rightarrow>
          write_or_exit (on_store pre ulid) ''failed to write to file ''
            \<lparr>Profiles = Some [''demo'' \<mapsto> defaultInitialProfile], DefaultProfile = ''demo''\<rparr> p
      | Some c \<Rightarrow>
          (case update_demo (Some c) of
             Inl msg \<Rightarrow> (Some (Panicked msg), p)
           | Inr c' \<Rightarrow>
               write_or_exit (on_store pre ulid) ''failed to write to existing file '' c' p))"
proof (cases "config_file p")
  case None
  then have "ReadConfigFromFile (on_store pre ulid) p = (None, Some ErrNotExist)"
    by (simp add: on_store_def store_Read_def)
  with None show ?thesis
    by (simp add: bootstrap_def os_IsNotExist_def)
next
  case (Some c)
  then have "ReadConfigFromFile (on_store pre ulid) p = (Some c, None)"
    by (simp add: on_store_def store_Read_def)
  with Some show ?thesis
    by (simp add: bootstrap_def os_IsNotExist_def)
qed

lemma run_bootstrap_eq:
  "run_bootstrap f =
     (case f of
        None \<Rightarrow>
          Some \<lparr>Profiles = Some [''demo'' \<mapsto> defaultInitialProfile], DefaultProfile = ''demo''\<rparr>
      | Some c \<Rightarrow> (case update_demo (Some c) of Inl msg \<Rightarrow> Some c | Inr c' \<Rightarrow> Some c'))"
  by (simp add: run_bootstrap_def bootstrap_on_store write_or_exit_on_store start_def
      split: option.splits sum.splits)

text \<open>
  An error of the read on which \<^verbatim>\<open>os.IsNotExist\<close> answers false is not looked at
  again: the bootstrap goes on as after a read without error.
\<close>

lemma read_error_not_inspected:
  assumes "\<not> os_IsNotExist err"
  shows "bootstrap (scripted (pc, err) wr pre ulid) p =
    bootstrap (scripted (pc, None) wr pre ulid) p"
  using assms
  by (simp add: bootstrap_scripted write_or_exit_scripted os_IsNotExist_def split: sum.splits)

lemma update_demo_present:
  assumes "Profiles c = Some m" and "m ''demo'' = Some X"
  shows "update_demo (Some c) =
    Inr (c\<lparr>Profiles := Some (m(''demo'' \<mapsto>
      X\<lparr>URL := ''http://demo.parseable.com'', Username := ''admin'', Password := ''admin''\<rparr>))\<rparr>)"
  using assms by (simp add: update_demo_def)

lemma update_demo_absent:
  assumes "Profiles c = Some m" and "m ''demo'' = None"
  shows "update_demo (Some c) =
    Inr (c\<lparr>Profiles := Some (m(''demo'' \<mapsto> defaultInitialProfile)), DefaultProfile := ''demo''\<rparr>)"
  using assms by (simp add: update_demo_def)

text \<open>
  A nil \<^verbatim>\<open>previousConfig\<close> and a nil \<^verbatim>\<open>Profiles\<close> map are the two inputs on which the
  else branch panics; nothing is written then.
\<close>

lemma update_demo_Inl:
  assumes "update_demo pc = Inl msg"
  shows "pc = None \<or> (\<exists>c. pc = Some c \<and> Profiles c = None)"
  using assms by (auto simp: update_demo_def split: option.splits)

lemma bootstrap_nil_map_panics:
  assumes "\<not> os_IsNotExist err" and "Profiles c = None"
  shows "bootstrap (scripted (Some c, err) wr pre ulid) p =
    (Some (Panicked ''assignment to entry in nil map''), p)"
  using assms by (simp add: bootstrap_scripted update_demo_def)

lemma bootstrap_nil_config_panics:
  assumes "\<not> os_IsNotExist err"
  shows "bootstrap (scripted (None, err) wr pre ulid) p =
    (Some (Panicked ''invalid memory address or nil pointer dereference''), p)"
  using assms by (simp add: bootstrap_scripted update_demo_def)

lemma update_demo_Inr:
  assumes "update_demo pc = Inr c'"
  shows "has_demo c' \<and> (\<forall>c. pc = Some c \<and> default_ok c \<longrightarrow> default_ok c')"
  using assms
  by (auto simp: update_demo_def has_demo_def default_ok_def split: option.splits if_splits)

lemma has_demo_initial:
  "has_demo \<lparr>Profiles = Some [''demo'' \<mapsto> defaultInitialProfile], DefaultProfile = ''demo''\<rparr>"
  by (simp add: has_demo_def)

lemma default_ok_initial:
  "default_ok \<lparr>Profiles = Some [''demo'' \<mapsto> defaultInitialProfile], DefaultProfile = ''demo''\<rparr>"
  by (simp add: default_ok_def)

subsection \<open>The barrier and the hooks\<close>

lemma fold_goroutine_fields:
  "trace (fold goroutine ts p) = trace p @ map EvPostRunAnalytics ts \<and>
   goroutines (fold goroutine ts p) = goroutines p \<and>
   environ (fold goroutine ts p) = environ p \<and>
   config_file (fold goroutine ts p) = config_file p \<and>
   wg (fold goroutine ts p) = wg p - length ts"
  by (induction ts arbitrary: p) (simp_all add: goroutine_def emit_def)

text \<open>
  When the counter is the number of goroutines still to run, which is what
  \<^verbatim>\<open>wg.Add(1)\<close> before each \<^verbatim>\<open>go\<close> and \<^verbatim>\<open>defer wg.Done()\<close> in each goroutine keep
  true, the wait returns after all of them have run.
\<close>

lemma await_balanced:
  assumes "wg p = length ts"
  shows "await ts p = (True, (fold goroutine ts p)\<lparr>goroutines := []\<rparr>)"
  using assms
proof (induction ts arbitrary: p)
  case Nil
  then show ?case by simp
next
  case (Cons t ts)
  then have "wg (goroutine t p) = length ts"
    by (simp add: goroutine_def emit_def)
  with Cons show ?case by simp
qed

lemma wg_Wait_balanced:
  assumes "wg p = length (goroutines p)"
  shows "wg_Wait p =
    (True, p\<lparr>wg := 0, goroutines := [],
       trace := trace p @ map EvPostRunAnalytics (goroutines p) @ [EvWait]\<rparr>)"
  using assms
  by (simp add: wg_Wait_def await_balanced emit_def fold_goroutine_fields)

text \<open>With the counter at zero the wait returns at once and runs nothing.\<close>

lemma wg_Wait_zero:
  assumes "wg p = 0"
  shows "wg_Wait p = (True, emit EvWait p)"
proof -
  have "await (goroutines p) p = (True, p\<lparr>goroutines := goroutines p\<rparr>)"
    using assms by (cases "goroutines p") simp_all
  then have "await (goroutines p) p = (True, p)"
    by simp
  then show ?thesis
    by (simp add: wg_Wait_def)
qed

text \<open>With a positive counter and no goroutine left to run the wait never returns.\<close>

lemma wg_Wait_blocks:
  assumes "wg p \<noteq> 0" and "goroutines p = []"
  shows "wg_Wait p = (False, p)"
proof -
  have "await (goroutines p) p = (False, p\<lparr>goroutines := goroutines p\<rparr>)"
    using assms by simp
  then have "await (goroutines p) p = (False, p)"
    by simp
  then show ?thesis
    by (simp add: wg_Wait_def)
qed

lemma getenv_disable:
  "(os_Getenv p ''PB_ANALYTICS'' = ''disable'') = (environ p ''PB_ANALYTICS'' = Some ''disable'')"
  by (simp add: os_Getenv_def split: option.splits)

lemma postRun_fields:
  "trace (postRun cat name args p) = trace p \<and> environ (postRun cat name args p) = environ p \<and>
   config_file (postRun cat name args p) = config_file p"
  by (simp add: postRun_def)

lemma combinedPreRun_scripted:
  "combinedPreRun (scripted rd wr pre ulid) p =
     (case pre of
        Some err \<Rightarrow>
          (Some (WrapError (''error initializing default profile: '' @ Error err) err),
           emit EvPreRunDefaultProfile p)
      | None \<Rightarrow>
          (case ulid of
             Some err \<Rightarrow>
               (Some (ErrorString (''error while creating ulid: '' @ Error err)),
                emit EvCheckAndCreateULID (emit EvPreRunDefaultProfile p))
           | None \<Rightarrow> (None, emit EvCheckAndCreateULID (emit EvPreRunDefaultProfile p))))"
  by (simp add: combinedPreRun_def scripted_sel extern_def split: option.splits)

lemma PersistentPreRunE_scripted:
  "PersistentPreRunE c (scripted rd wr pre ulid) p =
     (if c = Cli then (ulid, emit EvCheckAndCreateULID p)
      else combinedPreRun (scripted rd wr pre ulid) p)"
  by (cases c) (simp_all add: scripted_sel extern_def)

text \<open>The pre-run hook in a scenario: whether it succeeds, and what it leaves.\<close>

lemma prerun_result:
  "(fst (PersistentPreRunE c (scripted rd wr pre ulid) p) = None) =
     ((c = Cli \<or> pre = None) \<and> ulid = None)"
  by (simp add: PersistentPreRunE_scripted combinedPreRun_scripted split: option.splits)

lemma prerun_state:
  "snd (PersistentPreRunE c (scripted rd wr pre ulid) p) =
     p\<lparr>trace := trace p @
       (if c = Cli then [EvCheckAndCreateULID]
        else EvPreRunDefaultProfile # (if pre = None then [EvCheckAndCreateULID] else []))\<rparr>"
  by (simp add: PersistentPreRunE_scripted combinedPreRun_scripted emit_def split: option.splits)

lemma cli_RunE_eq:
  "cli_RunE fl p =
     (if fl versionFlag = Some True then (None, emit EvPrintVersion p)
      else (Some (ErrorString ''no command or flag supplied''), p))"
  by (cases "fl versionFlag") (auto simp: cli_RunE_def GetBool_def errors_New_def)

text \<open>A body returns the same whatever the state, and adds at most the printed version.\<close>

lemma run_body_result: "fst (run_body b q) = fst (run_body b p)"
  by (cases b) (simp_all add: cli_RunE_eq)

lemma run_body_state:
  "\<exists>es. snd (run_body b q) = q\<lparr>trace := trace q @ es\<rparr> \<and> set es \<subseteq> {EvPrintVersion}"
proof (cases b)
  case (RootBody fl)
  show ?thesis
  proof (cases "fl versionFlag = Some True")
    case True
    with RootBody have "snd (run_body b q) = q\<lparr>trace := trace q @ [EvPrintVersion]\<rparr>"
      by (simp add: cli_RunE_eq emit_def)
    then show ?thesis by (intro exI [of _ "[EvPrintVersion]"]) simp
  next
    case False
    with RootBody have "snd (run_body b q) = q\<lparr>trace := trace q @ []\<rparr>"
      by (simp add: cli_RunE_eq)
    then show ?thesis by (intro exI [of _ "[]"]) simp
  qed
next
  case VersionBody
  then have "snd (run_body b q) = q\<lparr>trace := trace q @ [EvPrintVersion]\<rparr>"
    by (simp add: emit_def)
  then show ?thesis by (intro exI [of _ "[EvPrintVersion]"]) simp
next
  case (LeafBody rb)
  then have "snd (run_body b q) = q\<lparr>trace := trace q @ []\<rparr>"
    by simp
  then show ?thesis by (intro exI [of _ "[]"]) simp
qed

text \<open>
  The dispatch of a runnable command in a scenario, in full: the error it returns, and
  the state it leaves.
\<close>

lemma Execute_result:
  "(fst (Execute (scripted rd wr pre ulid) (Runnable c name args req b) p) = None) =
     ((c = Cli \<or> pre = None) \<and> ulid = None \<and> req = None \<and> fst (run_body b p) = None)"
proof -
  let ?D = "scripted rd wr pre ulid"
  obtain r1 p1 where P: "PersistentPreRunE c ?D p = (r1, p1)"
    by (cases "PersistentPreRunE c ?D p")
  have r1: "(r1 = None) = ((c = Cli \<or> pre = None) \<and> ulid = None)"
    using prerun_result [of c rd wr pre ulid p] P by simp
  obtain r2 p2 where R: "run_body b (emit EvRun p1) = (r2, p2)"
    by (cases "run_body b (emit EvRun p1)")
  have r2: "r2 = fst (run_body b p)"
    using run_body_result [of b "emit EvRun p1" p] R by simp
  show ?thesis
    using P R r1 r2 by (auto simp: Execute.simps cobra_execute_def split: option.splits)
qed

lemma Execute_state:
  "\<exists>es. snd (Execute (scripted rd wr pre ulid) (Runnable c name args req b) p) =
      p\<lparr>trace := trace p @
          (if c = Cli then [] else [EvPreRunDefaultProfile]) @
          (if c = Cli \<or> pre = None
           then EvCheckAndCreateULID # (if ulid = None \<and> req = None then EvRun # es else [])
           else []),
        goroutines := goroutines p @
          (if fst (Execute (scripted rd wr pre ulid) (Runnable c name args req b) p) = None \<and>
              os_Getenv p ''PB_ANALYTICS'' \<noteq> ''disable''
           then [\<lparr>command = name, category = hook_category c, arguments = args\<rparr>] else []),
        wg := wg p +
          (if fst (Execute (scripted rd wr pre ulid) (Runnable c name args req b) p) = None \<and>
              os_Getenv p ''PB_ANALYTICS'' \<noteq> ''disable''
           then 1 else 0)\<rparr> \<and>
    set es \<subseteq> {EvPrintVersion}"
proof -
  let ?D = "scripted rd wr pre ulid"
  let ?hook = "(if c = Cli then [EvCheckAndCreateULID]
        else EvPreRunDefaultProfile # (if pre = None then [EvCheckAndCreateULID] else []))"
  obtain r1 p1 where P: "PersistentPreRunE c ?D p = (r1, p1)"
    by (cases "PersistentPreRunE c ?D p")
  have r1: "(r1 = None) = ((c = Cli \<or> pre = None) \<and> ulid = None)"
    using prerun_result [of c rd wr pre ulid p] P by simp
  have p1: "p1 = p\<lparr>trace := trace p @ ?hook\<rparr>"
    using prerun_state [of c rd wr pre ulid p] P by simp
  obtain r2 p2 where R: "run_body b (emit EvRun p1) = (r2, p2)"
    by (cases "run_body b (emit EvRun p1)")
  obtain es where es: "p2 = (emit EvRun p1)\<lparr>trace := trace (emit EvRun p1) @ es\<rparr>"
      "set es \<subseteq> {EvPrintVersion}"
    using run_body_state [of b "emit EvRun p1"] R by auto
  have env: "os_Getenv p2 ''PB_ANALYTICS'' = os_Getenv p ''PB_ANALYTICS''"
    using es(1) p1 by (simp add: os_Getenv_def emit_def)
  have res: "(fst (Execute ?D (Runnable c name args req b) p) = None) =
      (r1 = None \<and> req = None \<and> r2 = None)"
    using P R by (simp add: Execute.simps cobra_execute_def split: option.splits)
  show ?thesis
  proof (cases "r1 = None \<and> req = None")
    case False
    have "snd (Execute ?D (Runnable c name args req b) p) = p1"
      using False P by (auto simp: Execute.simps cobra_execute_def split: option.splits)
    with False res r1 p1 show ?thesis
      by (intro exI [of _ "[]"]) (auto split: if_splits)
  next
    case True
    show ?thesis
    proof (cases r2)
      case (Some e)
      with True P R have "snd (Execute ?D (Runnable c name args req b) p) = p2"
        by (simp add: Execute.simps cobra_execute_def)
      with True Some res r1 p1 es show ?thesis
        by (intro exI [of _ es]) (auto simp: emit_def split: if_splits)
    next
      case None
      with True P R have "snd (Execute ?D (Runnable c name args req b) p) =
          PersistentPostRun c name args p2"
        by (simp add: Execute.simps cobra_execute_def)
      with True None res r1 p1 es env show ?thesis
        by (intro exI [of _ es])
          (auto simp: emit_def PersistentPostRun_def postRun_def split: if_splits)
    qed
  qed
qed

subsection \<open>The whole process in a scenario\<close>

lemma quiet_events:
  assumes "EvWait \<notin> set es" and "\<And>t. EvPostRunAnalytics t \<notin> set es"
  shows "count_list es EvWait = 0 \<and> sent es = []"
  using assms
proof (induction es)
  case Nil
  then show ?case by simp
next
  case (Cons e es)
  then show ?case by (cases e) auto
qed

lemma bootstrap_state:
  "\<exists>es. snd (bootstrap (scripted rd wr pre ulid) p) = p\<lparr>trace := trace p @ es\<rparr> \<and>
     count_list es EvWait = 0 \<and> sent es = []"
proof -
  obtain pc err where rd: "rd = (pc, err)" by (cases rd)
  have w: "\<exists>es. snd (write_or_exit (scripted rd wr pre ulid) msg c p) = p\<lparr>trace := trace p @ es\<rparr> \<and>
      count_list es EvWait = 0 \<and> sent es = []" for msg c
  proof (cases wr)
    case None
    then have "snd (write_or_exit (scripted rd wr pre ulid) msg c p) =
        p\<lparr>trace := trace p @ [EvWriteConfig c]\<rparr>"
      by (simp add: write_or_exit_scripted emit_def)
    then show ?thesis by (intro exI [of _ "[EvWriteConfig c]"]) simp
  next
    case (Some e)
    then have "snd (write_or_exit (scripted rd wr pre ulid) msg c p) =
        p\<lparr>trace := trace p @ [EvWriteConfig c, EvPrintf (msg @ Error e @ [CHR 0x0A])]\<rparr>"
      by (simp add: write_or_exit_scripted emit_def)
    then show ?thesis
      by (intro exI [of _ "[EvWriteConfig c, EvPrintf (msg @ Error e @ [CHR 0x0A])]"]) simp
  qed
  have n: "\<exists>es. p = p\<lparr>trace := trace p @ es\<rparr> \<and> count_list es EvWait = 0 \<and> sent es = []"
    by (intro exI [of _ "[]"]) simp
  show ?thesis
  proof (cases "os_IsNotExist err")
    case True
    then have "bootstrap (scripted rd wr pre ulid) p =
        write_or_exit (scripted rd wr pre ulid) ''failed to write to file ''
          \<lparr>Profiles = Some [''demo'' \<mapsto> defaultInitialProfile], DefaultProfile = ''demo''\<rparr> p"
      unfolding rd by (simp add: bootstrap_scripted)
    with w show ?thesis by simp
  next
    case False
    show ?thesis
    proof (cases "update_demo pc")
      case (Inl msg)
      with False have "bootstrap (scripted rd wr pre ulid) p = (Some (Panicked msg), p)"
        unfolding rd by (simp add: bootstrap_scripted)
      with n show ?thesis by simp
    next
      case (Inr c)
      with False have "bootstrap (scripted rd wr pre ulid) p =
          write_or_exit (scripted rd wr pre ulid) ''failed to write to existing file '' c p"
        unfolding rd by (simp add: bootstrap_scripted)
      with w show ?thesis by simp
    qed
  qed
qed

text \<open>The bootstrap ends the process only with a status that is not zero.\<close>

lemma bootstrap_exit:
  assumes "bootstrap d p = (Some e, p1)"
  shows "e = OsExit 1 \<or> (\<exists>msg. e = Panicked msg)"
  using assms
  by (auto simp: bootstrap_def write_or_exit_def split: prod.splits if_splits sum.splits
      option.splits)

lemma bootstrap_write_fails:
  assumes "wr \<noteq> None"
  shows "fst (bootstrap (scripted rd wr pre ulid) p) \<noteq> None"
  using assms
  by (cases rd) (auto simp: bootstrap_scripted write_or_exit_scripted split: sum.splits)

lemma Execute_any_state:
  "\<exists>es. trace (snd (Execute (scripted rd wr pre ulid) disp p)) = trace p @ es \<and>
     count_list es EvWait = 0 \<and> sent es = [] \<and>
     environ (snd (Execute (scripted rd wr pre ulid) disp p)) = environ p \<and>
     config_file (snd (Execute (scripted rd wr pre ulid) disp p)) = config_file p \<and>
     wg (snd (Execute (scripted rd wr pre ulid) disp p)) =
       wg p + (length (goroutines (snd (Execute (scripted rd wr pre ulid) disp p))) -
         length (goroutines p)) \<and>
     (\<exists>ts. goroutines (snd (Execute (scripted rd wr pre ulid) disp p)) = goroutines p @ ts \<and>
        (fst (Execute (scripted rd wr pre ulid) disp p) \<noteq> None \<longrightarrow> ts = []))"
proof (cases disp)
  case Help
  then show ?thesis
    by (intro exI [of _ "[EvHelp]"]) (simp add: Execute.simps emit_def)
next
  case (Usage e)
  then show ?thesis
    by (intro exI [of _ "[]"]) (simp add: Execute.simps)
next
  case (Runnable c name args req b)
  let ?X = "Execute (scripted rd wr pre ulid) (Runnable c name args req b) p"
  let ?ts = "(if fst ?X = None \<and> os_Getenv p ''PB_ANALYTICS'' \<noteq> ''disable''
           then [\<lparr>command = name, category = hook_category c, arguments = args\<rparr>] else [])"
  from Execute_state [of rd wr pre ulid c name args req b p]
  obtain es where st: "snd ?X =
      p\<lparr>trace := trace p @
          (if c = Cli then [] else [EvPreRunDefaultProfile]) @
          (if c = Cli \<or> pre = None
           then EvCheckAndCreateULID # (if ulid = None \<and> req = None then EvRun # es else [])
           else []),
        goroutines := goroutines p @ ?ts,
        wg := wg p + (if fst ?X = None \<and> os_Getenv p ''PB_ANALYTICS'' \<noteq> ''disable''
           then 1 else 0)\<rparr>"
    and es: "set es \<subseteq> {EvPrintVersion}"
    by blast
  let ?es = "(if c = Cli then [] else [EvPreRunDefaultProfile]) @
          (if c = Cli \<or> pre = None
           then EvCheckAndCreateULID # (if ulid = None \<and> req = None then EvRun # es else [])
           else [])"
  have "EvWait \<notin> set ?es" and "\<And>t. EvPostRunAnalytics t \<notin> set ?es"
    using es by (auto split: if_splits)
  then have q: "count_list ?es EvWait = 0 \<and> sent ?es = []"
    by (rule quiet_events)
  have tr: "trace (snd ?X) = trace p @ ?es" by (simp add: st)
  have rest: "environ (snd ?X) = environ p \<and> config_file (snd ?X) = config_file p \<and>
      goroutines (snd ?X) = goroutines p @ ?ts \<and>
      wg (snd ?X) = wg p + length ?ts"
    by (simp add: st)
  show ?thesis
    unfolding Runnable
    using tr q rest
    by (intro exI [of _ ?es] conjI exI [of _ ?ts]) simp_all
qed

text \<open>
  The whole process in a scenario, from a state in which the counter is the number of
  goroutines still to run.
\<close>

lemma pb_scripted:
  assumes "bootstrap (scripted rd wr pre ulid) p = (b, p1)"
    and "Execute (scripted rd wr pre ulid) disp p1 = (r, p2)"
    and "wg p = length (goroutines p)"
  shows "pb (scripted rd wr pre ulid) disp p =
      (case b of
         Some e \<Rightarrow> (e, p1)
       | None \<Rightarrow>
           (case r of
              Some err \<Rightarrow> (OsExit 1, p2)
            | None \<Rightarrow>
                (Returned,
                 p2\<lparr>wg := 0, goroutines := [],
                   trace := trace p2 @ map EvPostRunAnalytics (goroutines p2) @ [EvWait]\<rparr>))) \<and>
    wg p2 = length (goroutines p2) \<and>
    count_list (trace p2) EvWait = count_list (trace p) EvWait \<and>
    sent (trace p2) = sent (trace p) \<and>
    (r \<noteq> None \<longrightarrow> goroutines p2 = goroutines p)"
proof -
  let ?D = "scripted rd wr pre ulid"
  from bootstrap_state [of rd wr pre ulid p] assms(1)
  obtain es1 where p1: "p1 = p\<lparr>trace := trace p @ es1\<rparr>"
    and q1: "count_list es1 EvWait = 0" "sent es1 = []"
    by auto
  from Execute_any_state [of rd wr pre ulid disp p1] assms(2)
  obtain es2 ts where tr2: "trace p2 = trace p1 @ es2"
    and q2: "count_list es2 EvWait = 0" "sent es2 = []"
    and w2: "wg p2 = wg p1 + (length (goroutines p2) - length (goroutines p1))"
    and g2: "goroutines p2 = goroutines p1 @ ts" "r \<noteq> None \<longrightarrow> ts = []"
    by auto
  have bal: "wg p2 = length (goroutines p2)"
    using w2 g2 p1 assms(3) by simp
  have cnt: "count_list (trace p2) EvWait = count_list (trace p) EvWait"
    using tr2 q1 q2 p1 by (simp add: count_Wait_append)
  have snt: "sent (trace p2) = sent (trace p)"
    using tr2 q1 q2 p1 by (simp add: sent_append)
  have gor: "r \<noteq> None \<longrightarrow> goroutines p2 = goroutines p"
    using g2 p1 by simp
  have run: "pb ?D disp p =
      (case b of
         Some e \<Rightarrow> (e, p1)
       | None \<Rightarrow>
           (case r of
              Some err \<Rightarrow> (OsExit 1, p2)
            | None \<Rightarrow>
                (Returned,
                 p2\<lparr>wg := 0, goroutines := [],
                   trace := trace p2 @ map EvPostRunAnalytics (goroutines p2) @ [EvWait]\<rparr>)))"
    using assms(1,2) wg_Wait_balanced [OF bal]
    by (simp add: pb_def main_def split: option.splits)
  from run bal cnt snt gor show ?thesis by blast
qed

subsection \<open>The two branches of the merge\<close>

text \<open>
  With \<open>demo\<close> present the bootstrap changes the three fields of \<open>demo\<close> and nothing
  else; the url it writes is the literal of line 331.
\<close>

lemma bootstrap_demo_present:
  assumes "Profiles c = Some m" and "m ''demo'' = Some X" and "\<not> os_IsNotExist err"
  shows "\<exists>c' m'.
      written (trace (snd (bootstrap (scripted (Some c, err) wr pre ulid) p))) =
        written (trace p) @ [c'] \<and>
      Profiles c' = Some m' \<and>
      (\<forall>k. k \<noteq> ''demo'' \<longrightarrow> m' k = m k) \<and>
      m' ''demo'' = Some (X\<lparr>URL := ''http://demo.parseable.com'', Username := ''admin'',
        Password := ''admin''\<rparr>) \<and>
      DefaultProfile c' = DefaultProfile c"
proof -
  let ?m' = "m(''demo'' \<mapsto>
      X\<lparr>URL := ''http://demo.parseable.com'', Username := ''admin'', Password := ''admin''\<rparr>)"
  have "written (trace (snd (bootstrap (scripted (Some c, err) wr pre ulid) p))) =
      written (trace p) @ [c\<lparr>Profiles := Some ?m'\<rparr>]"
    using assms(3)
    by (simp add: bootstrap_scripted update_demo_present [OF assms(1,2)] written_write_or_exit)
  then show ?thesis
    by (intro exI [of _ "c\<lparr>Profiles := Some ?m'\<rparr>"] exI [of _ ?m']) simp
qed

text \<open>
  With a profiles map that is not nil and has no \<open>demo\<close>, the bootstrap inserts
  \<open>defaultInitialProfile\<close> and makes \<open>demo\<close> the default.
\<close>

lemma bootstrap_demo_absent:
  assumes "Profiles c = Some m" and "m ''demo'' = None"
  shows "(\<not> os_IsNotExist err \<longrightarrow>
      written (trace (snd (bootstrap (scripted (Some c, err) wr pre ulid) p))) =
        written (trace p) @
          [c\<lparr>Profiles := Some (m(''demo'' \<mapsto> defaultInitialProfile)),
             DefaultProfile := ''demo''\<rparr>]) \<and>
    (config_file p = Some c \<longrightarrow>
      bootstrap (on_store pre ulid) p =
        (None,
         (emit (EvWriteConfig (c\<lparr>Profiles := Some (m(''demo'' \<mapsto> defaultInitialProfile)),
             DefaultProfile := ''demo''\<rparr>)) p)
           \<lparr>config_file := Some (c\<lparr>Profiles := Some (m(''demo'' \<mapsto> defaultInitialProfile)),
             DefaultProfile := ''demo''\<rparr>)\<rparr>))"
  by (simp add: bootstrap_scripted bootstrap_on_store update_demo_absent [OF assms]
      written_write_or_exit write_or_exit_on_store)

section \<open>The bootstrap\<close>

text \<open>
  C1: the bootstrap is idempotent: two runs in a row from an empty store give a
  configuration with exactly one profile, \<open>demo\<close>, and the default profile \<open>demo\<close>, and
  the second run gives the configuration of the first, with the same url, username and
  password. The code does not do this. The first run writes \<open>defaultInitialProfile\<close>,
  whose url starts with \<^verbatim>\<open>https://\<close>; the second run finds \<open>demo\<close> and overwrites its
  url with the literal of the update branch, which starts with \<^verbatim>\<open>http://\<close>.
\<close>

theorem bootstrap_twice_differs:
  "run_bootstrap None =
     Some \<lparr>Profiles = Some [''demo'' \<mapsto>
       \<lparr>URL = ''https://demo.parseable.com'', Username = ''admin'', Password = ''admin''\<rparr>],
       DefaultProfile = ''demo''\<rparr> \<and>
   run_bootstrap (run_bootstrap None) =
     Some \<lparr>Profiles = Some [''demo'' \<mapsto>
       \<lparr>URL = ''http://demo.parseable.com'', Username = ''admin'', Password = ''admin''\<rparr>],
       DefaultProfile = ''demo''\<rparr> \<and>
   run_bootstrap (run_bootstrap None) \<noteq> run_bootstrap None"
proof -
  let ?https = "\<lparr>URL = ''https://demo.parseable.com'', Username = ''admin'', Password = ''admin''\<rparr>"
  let ?http = "\<lparr>URL = ''http://demo.parseable.com'', Username = ''admin'', Password = ''admin''\<rparr>"
  have one: "run_bootstrap None =
      Some \<lparr>Profiles = Some [''demo'' \<mapsto> ?https], DefaultProfile = ''demo''\<rparr>"
    by (simp add: run_bootstrap_eq defaultInitialProfile_def)
  have two: "run_bootstrap (run_bootstrap None) =
      Some \<lparr>Profiles = Some [''demo'' \<mapsto> ?http], DefaultProfile = ''demo''\<rparr>"
    unfolding one by (simp add: run_bootstrap_eq update_demo_def)
  have "[''demo'' \<mapsto> ?http] ''demo'' \<noteq> [''demo'' \<mapsto> ?https] ''demo''"
    by simp
  then have "[''demo'' \<mapsto> ?http] \<noteq> [''demo'' \<mapsto> ?https]"
    by metis
  then have "run_bootstrap (run_bootstrap None) \<noteq> run_bootstrap None"
    unfolding two unfolding one by simp
  with one two show ?thesis by simp
qed

text \<open>
  C2: a failure of the read at process start that is not the absence of the file is
  surfaced as an error and ends the process before any command runs. The code does not
  do this: the else branch of the bootstrap never looks at the error. Here the read
  returns the part of a corrupt file that it could decode, together with the decoding
  error; the bootstrap merges and writes, the command runs, and the process returns with
  status 0.
\<close>

theorem read_error_is_ignored:
  "main (scripted (Some \<lparr>Profiles = Some [''work'' \<mapsto>
        \<lparr>URL = ''https://logs.example.com'', Username = ''u'', Password = ''p''\<rparr>],
        DefaultProfile = ''work''\<rparr>, Some (ErrorString ''toml: expected character =''))
        None None None)
      (extern EvRun None) (start Map.empty None) =
    (Returned,
     \<lparr>environ = Map.empty, wg = 0, goroutines = [],
      trace = [EvWriteConfig \<lparr>Profiles = Some [''work'' \<mapsto>
        \<lparr>URL = ''https://logs.example.com'', Username = ''u'', Password = ''p''\<rparr>,
        ''demo'' \<mapsto> defaultInitialProfile], DefaultProfile = ''demo''\<rparr>, EvRun, EvWait],
      config_file = None\<rparr>)"
  by (simp add: main_def bootstrap_scripted write_or_exit_scripted os_IsNotExist_def
      update_demo_def extern_def emit_def wg_Wait_def start_def)

text \<open>
  C4: for an existing configuration whose profiles contain \<open>demo\<close>, the bootstrap leaves
  every other profile and the default profile unchanged and sets the url, username and
  password of \<open>demo\<close> to the well-known demo values. The code does not do this for the url.
  At the configuration with the profiles \<open>demo\<close> and \<open>work\<close> and the default \<open>work\<close>, the
  profile \<open>work\<close> and the default are kept and the username and password of \<open>demo\<close> are
  those of \<open>defaultInitialProfile\<close>, but the url written is the literal of the update
  branch, which starts with \<^verbatim>\<open>http://\<close>, not the url of \<open>defaultInitialProfile\<close>, which
  the two other paths of the bootstrap write. This is the slip of C1.
\<close>

theorem bootstrap_overwrites_demo_url:
  "written (trace (snd (bootstrap (scripted
      (Some \<lparr>Profiles = Some
          [''demo'' \<mapsto> \<lparr>URL = ''https://demo.parseable.com'', Username = ''me'', Password = ''pw''\<rparr>,
           ''work'' \<mapsto> \<lparr>URL = ''https://logs.example.com'', Username = ''u'', Password = ''p''\<rparr>],
         DefaultProfile = ''work''\<rparr>, None) None None None) (start Map.empty None)))) =
     [\<lparr>Profiles = Some
         [''demo'' \<mapsto> \<lparr>URL = ''https://demo.parseable.com'', Username = ''me'', Password = ''pw''\<rparr>,
          ''work'' \<mapsto> \<lparr>URL = ''https://logs.example.com'', Username = ''u'', Password = ''p''\<rparr>,
          ''demo'' \<mapsto>
            \<lparr>URL = ''http://demo.parseable.com'', Username = ''admin'', Password = ''admin''\<rparr>],
       DefaultProfile = ''work''\<rparr>] \<and>
   URL defaultInitialProfile = ''https://demo.parseable.com'' \<and>
   Username defaultInitialProfile = ''admin'' \<and>
   Password defaultInitialProfile = ''admin'' \<and>
   \<lparr>URL = ''http://demo.parseable.com'', Username = ''admin'', Password = ''admin''\<rparr> \<noteq>
     defaultInitialProfile"
  by (simp add: bootstrap_scripted written_write_or_exit os_IsNotExist_def update_demo_def
      start_def defaultInitialProfile_def)

text \<open>
  C8: for an existing configuration whose profiles map has no \<open>demo\<close> entry, the bootstrap
  inserts a fresh demo profile, sets the default profile to \<open>demo\<close> and persists the
  result. The code does this for every map that is not nil (lemma
  \<open>bootstrap_demo_absent\<close>). It does not do it for the configuration whose \<^verbatim>\<open>Profiles\<close>
  is Go's nil map, as in the zero value \<^verbatim>\<open>Config{}\<close>: the lookup finds no \<open>demo\<close>, the
  branch that inserts runs, and the assignment panics. Nothing is written, the store is
  left without \<open>demo\<close>, and the process ends with status 2 before any command runs.
\<close>

theorem bootstrap_nil_map_writes_nothing:
  "bootstrap (scripted (Some \<lparr>Profiles = None, DefaultProfile = []\<rparr>, None) None None None)
      (start Map.empty None) =
     (Some (Panicked ''assignment to entry in nil map''), start Map.empty None) \<and>
   written (trace (snd (bootstrap
      (scripted (Some \<lparr>Profiles = None, DefaultProfile = []\<rparr>, None) None None None)
      (start Map.empty None)))) = [] \<and>
   run_bootstrap (Some \<lparr>Profiles = None, DefaultProfile = []\<rparr>) =
     Some \<lparr>Profiles = None, DefaultProfile = []\<rparr> \<and>
   pb (scripted (Some \<lparr>Profiles = None, DefaultProfile = []\<rparr>, None) None None None)
      (Runnable ProfileCmd ''list'' [] None (LeafBody None)) (start Map.empty None) =
     (Panicked ''assignment to entry in nil map'', start Map.empty None) \<and>
   exit_status (Panicked ''assignment to entry in nil map'') = 2"
  by (simp add: bootstrap_scripted os_IsNotExist_def update_demo_def run_bootstrap_eq
      pb_def main_def start_def)

text \<open>
  C9: the bootstrap keeps the invariants of the configuration. Whatever the read
  returns, the bootstrap either hands exactly one configuration to the store, and that
  one has a profile \<open>demo\<close> and, if the configuration read had a non-empty default profile
  naming one of its profiles, a non-empty default profile naming one of its profiles; or
  it panics and writes nothing, which happens only when the read did not report a missing
  file and returned a nil configuration or one with a nil profiles map.
\<close>

theorem bootstrap_keeps_invariants:
  "(\<exists>c'. written (trace (snd (bootstrap (scripted (pc, err) wr pre ulid) p))) =
        written (trace p) @ [c'] \<and>
      has_demo c' \<and> (\<forall>c. pc = Some c \<and> default_ok c \<longrightarrow> default_ok c')) \<or>
   ((\<exists>msg. fst (bootstrap (scripted (pc, err) wr pre ulid) p) = Some (Panicked msg)) \<and>
      snd (bootstrap (scripted (pc, err) wr pre ulid) p) = p \<and>
      \<not> os_IsNotExist err \<and> (pc = None \<or> (\<exists>c. pc = Some c \<and> Profiles c = None)))"
proof (cases "os_IsNotExist err")
  case True
  then show ?thesis
    by (simp add: bootstrap_scripted written_write_or_exit has_demo_initial default_ok_initial)
next
  case False
  show ?thesis
  proof (cases "update_demo pc")
    case (Inl msg)
    with False update_demo_Inl [OF Inl] show ?thesis
      by (simp add: bootstrap_scripted)
  next
    case (Inr c')
    with False update_demo_Inr [OF Inr] show ?thesis
      by (simp add: bootstrap_scripted written_write_or_exit)
  qed
qed

theorem bootstrap_keeps_invariants_witness:
  "\<exists>c'. written (trace (snd (bootstrap (scripted
        (Some \<lparr>Profiles = Some
            [''work'' \<mapsto> \<lparr>URL = ''https://logs.example.com'', Username = ''u'', Password = ''p''\<rparr>],
           DefaultProfile = ''work''\<rparr>, None) None None None) (start Map.empty None)))) = [c'] \<and>
      has_demo c' \<and> default_ok c'"
proof -
  let ?Y = "\<lparr>URL = ''https://logs.example.com'', Username = ''u'', Password = ''p''\<rparr>"
  let ?c = "\<lparr>Profiles = Some [''work'' \<mapsto> ?Y], DefaultProfile = ''work''\<rparr>"
  have ok: "default_ok ?c" by (simp add: default_ok_def)
  have "\<not> (Some ?c = None \<or> (\<exists>c. Some ?c = Some c \<and> Profiles c = None))" by simp
  with bootstrap_keeps_invariants [of "Some ?c" None None None None "start Map.empty None"]
  obtain c' where
    "written (trace (snd (bootstrap (scripted (Some ?c, None) None None None)
        (start Map.empty None)))) = written (trace (start Map.empty None)) @ [c']"
    "has_demo c'" "\<forall>c. Some ?c = Some c \<and> default_ok c \<longrightarrow> default_ok c'"
    by blast
  with ok show ?thesis
    by (intro exI [of _ c']) (simp add: start_def)
qed

section \<open>The life cycle of a command\<close>

text \<open>
  C3, as the code has it. In main: when the bootstrap lets the process go on and the
  root dispatch returns an error, the process calls \<^verbatim>\<open>os.Exit(1)\<close> at once, without
  waiting on the telemetry barrier; when the dispatch returns no error and the counter
  of the barrier is the number of goroutines still running, the process waits, every one
  of them calls the sink and finishes, and main returns. For the whole process in any
  scenario and for any dispatch: the barrier counts exactly the goroutines that the
  post-run hook started; the process waits exactly once, as its last step, when the
  dispatch returns no error, and not at all otherwise; and it never ends with a started
  goroutine unfinished, because a dispatch that returns an error has started none.
\<close>

theorem main_waits_after_success_only:
  assumes "bootstrap (scripted rd wr pre ulid) (start env f) = (b, p1)"
    and "Execute (scripted rd wr pre ulid) disp p1 = (r, p2)"
  shows "(bootstrap d p = (None, q1) \<and> execute q1 = (Some err, q2) \<longrightarrow>
      main d execute p = (OsExit 1, q2)) \<and>
    (bootstrap d p = (None, q1) \<and> execute q1 = (None, q2) \<and> wg q2 = length (goroutines q2) \<longrightarrow>
      main d execute p =
        (Returned,
         q2\<lparr>wg := 0, goroutines := [],
           trace := trace q2 @ map EvPostRunAnalytics (goroutines q2) @ [EvWait]\<rparr>)) \<and>
    pb (scripted rd wr pre ulid) disp (start env f) =
      (case b of
         Some e \<Rightarrow> (e, p1)
       | None \<Rightarrow>
           (case r of
              Some err \<Rightarrow> (OsExit 1, p2)
            | None \<Rightarrow>
                (Returned,
                 p2\<lparr>wg := 0, goroutines := [],
                   trace := trace p2 @ map EvPostRunAnalytics (goroutines p2) @ [EvWait]\<rparr>))) \<and>
    wg p2 = length (goroutines p2) \<and>
    count_list (trace p1) EvWait = 0 \<and>
    count_list (trace p2) EvWait = 0 \<and>
    sent (trace p2) = [] \<and>
    goroutines p1 = [] \<and>
    (r \<noteq> None \<longrightarrow> goroutines p2 = []) \<and>
    goroutines (snd (pb (scripted rd wr pre ulid) disp (start env f))) = [] \<and>
    count_list (trace (snd (pb (scripted rd wr pre ulid) disp (start env f)))) EvWait =
      (if b = None \<and> r = None then 1 else 0) \<and>
    sent (trace (snd (pb (scripted rd wr pre ulid) disp (start env f)))) =
      (if b = None \<and> r = None then goroutines p2 else [])"
proof -
  let ?D = "scripted rd wr pre ulid"
  have m1: "bootstrap d p = (None, q1) \<and> execute q1 = (Some err, q2) \<longrightarrow>
      main d execute p = (OsExit 1, q2)"
    by (simp add: main_def)
  have m2: "bootstrap d p = (None, q1) \<and> execute q1 = (None, q2) \<and>
      wg q2 = length (goroutines q2) \<longrightarrow>
      main d execute p =
        (Returned,
         q2\<lparr>wg := 0, goroutines := [],
           trace := trace q2 @ map EvPostRunAnalytics (goroutines q2) @ [EvWait]\<rparr>)"
    by (auto simp: main_def wg_Wait_balanced)
  have s0: "wg (start env f) = length (goroutines (start env f))"
    by (simp add: start_def)
  note P = pb_scripted [OF assms s0]
  from P have run: "pb ?D disp (start env f) =
      (case b of
         Some e \<Rightarrow> (e, p1)
       | None \<Rightarrow>
           (case r of
              Some err \<Rightarrow> (OsExit 1, p2)
            | None \<Rightarrow>
                (Returned,
                 p2\<lparr>wg := 0, goroutines := [],
                   trace := trace p2 @ map EvPostRunAnalytics (goroutines p2) @ [EvWait]\<rparr>)))"
    by blast
  from P have bal: "wg p2 = length (goroutines p2)" by blast
  from P have c2: "count_list (trace p2) EvWait = 0" by (simp add: start_def)
  from P have s2: "sent (trace p2) = []" by (simp add: start_def)
  from P have g2: "r \<noteq> None \<longrightarrow> goroutines p2 = []" by (simp add: start_def)
  from bootstrap_state [of rd wr pre ulid "start env f"] assms(1)
  obtain es1 where p1: "p1 = (start env f)\<lparr>trace := trace (start env f) @ es1\<rparr>"
    and q1: "count_list es1 EvWait = 0" and q1': "sent es1 = []"
    by auto
  have c1: "count_list (trace p1) EvWait = 0" using p1 q1 by (simp add: start_def)
  have s1: "sent (trace p1) = []" using p1 q1' by (simp add: start_def)
  have g1: "goroutines p1 = []" using p1 by (simp add: start_def)
  have gf: "goroutines (snd (pb ?D disp (start env f))) = []"
    unfolding run using g1 g2 by (simp split: option.splits)
  have cf: "count_list (trace (snd (pb ?D disp (start env f)))) EvWait =
      (if b = None \<and> r = None then 1 else 0)"
    unfolding run using c1 c2
    by (simp add: count_Wait_append count_Wait_map split: option.splits)
  have sf: "sent (trace (snd (pb ?D disp (start env f)))) =
      (if b = None \<and> r = None then goroutines p2 else [])"
    unfolding run using s1 s2
    by (simp add: sent_append sent_map split: option.splits)
  from m1 m2 run bal c1 c2 s2 g1 g2 gf cf sf show ?thesis by blast
qed

theorem main_waits_after_success_only_witness:
  "pb (scripted (None, Some ErrNotExist) None None None)
      (Runnable ProfileCmd ''list'' [] None (LeafBody None)) (start Map.empty None) =
     (Returned,
      \<lparr>environ = Map.empty, wg = 0, goroutines = [],
       trace = [EvWriteConfig \<lparr>Profiles = Some [''demo'' \<mapsto> defaultInitialProfile],
           DefaultProfile = ''demo''\<rparr>,
         EvPreRunDefaultProfile, EvCheckAndCreateULID, EvRun,
         EvPostRunAnalytics \<lparr>command = ''list'', category = ''profile'', arguments = []\<rparr>,
         EvWait],
       config_file = None\<rparr>) \<and>
   count_list (trace (snd (pb (scripted (None, Some ErrNotExist) None None None)
      (Runnable ProfileCmd ''list'' [] None (LeafBody None)) (start Map.empty None)))) EvWait = 1 \<and>
   sent (trace (snd (pb (scripted (None, Some ErrNotExist) None None None)
      (Runnable ProfileCmd ''list'' [] None (LeafBody None)) (start Map.empty None)))) =
     [\<lparr>command = ''list'', category = ''profile'', arguments = []\<rparr>]"
proof -
  let ?D = "scripted (None, Some ErrNotExist) None None None"
  let ?c0 = "\<lparr>Profiles = Some [''demo'' \<mapsto> defaultInitialProfile], DefaultProfile = ''demo''\<rparr>"
  let ?t = "\<lparr>command = ''list'', category = ''profile'', arguments = []\<rparr>"
  let ?p1 = "\<lparr>environ = Map.empty, wg = 0, goroutines = [], trace = [EvWriteConfig ?c0],
      config_file = None\<rparr>"
  let ?p2 = "\<lparr>environ = Map.empty, wg = 1, goroutines = [?t],
      trace = [EvWriteConfig ?c0, EvPreRunDefaultProfile, EvCheckAndCreateULID, EvRun],
      config_file = None\<rparr>"
  have b: "bootstrap ?D (start Map.empty None) = (None, ?p1)"
    by (simp add: bootstrap_scripted write_or_exit_scripted os_IsNotExist_def emit_def start_def)
  have e: "Execute ?D (Runnable ProfileCmd ''list'' [] None (LeafBody None)) ?p1 = (None, ?p2)"
    by (simp add: Execute.simps cobra_execute_def combinedPreRun_scripted emit_def
        PersistentPostRun_def postRun_def os_Getenv_def)
  note T = main_waits_after_success_only [OF b e]
  from T have 1: "pb ?D (Runnable ProfileCmd ''list'' [] None (LeafBody None))
      (start Map.empty None) =
     (Returned,
      \<lparr>environ = Map.empty, wg = 0, goroutines = [],
       trace = [EvWriteConfig ?c0, EvPreRunDefaultProfile, EvCheckAndCreateULID, EvRun,
         EvPostRunAnalytics ?t, EvWait],
       config_file = None\<rparr>)"
    by simp
  from T have 2: "count_list (trace (snd (pb ?D (Runnable ProfileCmd ''list'' [] None
      (LeafBody None)) (start Map.empty None)))) EvWait = 1"
    by simp
  from T have 3: "sent (trace (snd (pb ?D (Runnable ProfileCmd ''list'' [] None
      (LeafBody None)) (start Map.empty None)))) = [?t]"
    by simp
  from 1 2 3 show ?thesis by blast
qed

text \<open>
  C3 as stated fails: here the root dispatch returns an error, and the process exits
  with status 1 without a single wait on the barrier.
\<close>

theorem main_exits_without_wait:
  "main (scripted (None, Some ErrNotExist) None None None)
      (extern EvRun (Some (ErrorString ''no such stream''))) (start Map.empty None) =
     (OsExit 1,
      \<lparr>environ = Map.empty, wg = 0, goroutines = [],
       trace = [EvWriteConfig \<lparr>Profiles = Some [''demo'' \<mapsto> defaultInitialProfile],
         DefaultProfile = ''demo''\<rparr>, EvRun],
       config_file = None\<rparr>) \<and>
   count_list (trace (snd (main (scripted (None, Some ErrNotExist) None None None)
      (extern EvRun (Some (ErrorString ''no such stream''))) (start Map.empty None)))) EvWait = 0"
  by (simp add: main_def bootstrap_scripted write_or_exit_scripted os_IsNotExist_def
      extern_def emit_def start_def)

text \<open>
  C5, as the code has it. The bootstrap runs first, in main, before the dispatch; when
  its write fails, or when it panics, the process ends there with a status that is not
  zero, and no hook and no command body runs. For a command that the framework runs, the
  pre-run hook comes next: for a command below \<open>profile\<close>, \<open>query\<close>, \<open>stream\<close>, \<open>user\<close>,
  \<open>role\<close> or \<open>cluster\<close> it resolves the default profile first and creates the session
  identity second, the latter only if the resolution succeeded; for the root and the
  commands attached to it, it creates the session identity only. The body of the command
  is called only after every step of the hook has succeeded (and the framework's check of
  the required flags has passed); when a step of the hook fails, the process exits with
  status 1 in the state the hook left. A dispatch that prints the help text, or that
  fails before a command is run, runs no hook and no body.
\<close>

theorem prerun_resolves_then_creates_ulid:
  assumes "bootstrap (scripted rd wr pre ulid) p = (b, p1)"
  shows "(\<forall>e. b = Some e \<longrightarrow>
        pb (scripted rd wr pre ulid) disp p = (e, p1) \<and> exit_status e \<noteq> 0) \<and>
    (wr \<noteq> None \<longrightarrow> b \<noteq> None) \<and>
    (\<exists>es. set es \<subseteq> {EvPrintVersion} \<and>
       trace (snd (Execute (scripted rd wr pre ulid) (Runnable c name args req bd) p1)) =
         trace p1 @
           (if c = Cli then [] else [EvPreRunDefaultProfile]) @
           (if c = Cli \<or> pre = None
            then EvCheckAndCreateULID # (if ulid = None \<and> req = None then EvRun # es else [])
            else [])) \<and>
    (b = None \<and> ((c \<noteq> Cli \<and> pre \<noteq> None) \<or> ulid \<noteq> None) \<longrightarrow>
       pb (scripted rd wr pre ulid) (Runnable c name args req bd) p =
         (OsExit 1, snd (Execute (scripted rd wr pre ulid) (Runnable c name args req bd) p1))) \<and>
    Execute (scripted rd wr pre ulid) Help p1 = (None, emit EvHelp p1) \<and>
    Execute (scripted rd wr pre ulid) (Usage err) p1 = (Some err, p1)"
proof -
  let ?D = "scripted rd wr pre ulid"
  let ?R = "Runnable c name args req bd"
  have 1: "\<forall>e. b = Some e \<longrightarrow> pb ?D disp p = (e, p1) \<and> exit_status e \<noteq> 0"
  proof (intro allI impI)
    fix e
    assume "b = Some e"
    with assms have B: "bootstrap ?D p = (Some e, p1)" by simp
    from bootstrap_exit [OF B] have "exit_status e \<noteq> 0" by auto
    with B show "pb ?D disp p = (e, p1) \<and> exit_status e \<noteq> 0"
      by (simp add: pb_def main_def)
  qed
  have 2: "wr \<noteq> None \<longrightarrow> b \<noteq> None"
    using bootstrap_write_fails [of wr rd pre ulid p] assms by auto
  from Execute_state [of rd wr pre ulid c name args req bd p1]
  obtain es where es: "set es \<subseteq> {EvPrintVersion}"
    and tr: "trace (snd (Execute ?D ?R p1)) =
         trace p1 @
           (if c = Cli then [] else [EvPreRunDefaultProfile]) @
           (if c = Cli \<or> pre = None
            then EvCheckAndCreateULID # (if ulid = None \<and> req = None then EvRun # es else [])
            else [])"
    by auto
  have 4: "b = None \<and> ((c \<noteq> Cli \<and> pre \<noteq> None) \<or> ulid \<noteq> None) \<longrightarrow>
       pb ?D ?R p = (OsExit 1, snd (Execute ?D ?R p1))"
  proof
    assume h: "b = None \<and> ((c \<noteq> Cli \<and> pre \<noteq> None) \<or> ulid \<noteq> None)"
    then have "fst (Execute ?D ?R p1) \<noteq> None"
      using Execute_result [of rd wr pre ulid c name args req bd p1] by auto
    then obtain e2 p2 where E: "Execute ?D ?R p1 = (Some e2, p2)"
      by (cases "Execute ?D ?R p1") auto
    from h assms E have "pb ?D ?R p = (OsExit 1, p2)"
      by (simp add: pb_def main_def)
    with E show "pb ?D ?R p = (OsExit 1, snd (Execute ?D ?R p1))"
      by simp
  qed
  have 5: "Execute ?D Help p1 = (None, emit EvHelp p1) \<and>
      Execute ?D (Usage err) p1 = (Some err, p1)"
    by (simp add: Execute.simps)
  from 1 2 es tr 4 5 show ?thesis by blast
qed

theorem prerun_resolves_then_creates_ulid_witness:
  "trace (snd (Execute (scripted (None, Some ErrNotExist) None
      (Some (ErrorString ''no profile is configured'')) None)
      (Runnable ProfileCmd ''list'' [] None (LeafBody None))
      (emit (EvWriteConfig \<lparr>Profiles = Some [''demo'' \<mapsto> defaultInitialProfile],
         DefaultProfile = ''demo''\<rparr>) (start Map.empty None)))) =
     [EvWriteConfig \<lparr>Profiles = Some [''demo'' \<mapsto> defaultInitialProfile],
        DefaultProfile = ''demo''\<rparr>,
      EvPreRunDefaultProfile] \<and>
   fst (pb (scripted (None, Some ErrNotExist) None
      (Some (ErrorString ''no profile is configured'')) None)
      (Runnable ProfileCmd ''list'' [] None (LeafBody None)) (start Map.empty None)) = OsExit 1 \<and>
   fst (pb (scripted (None, Some ErrNotExist) (Some ErrPermission) None None)
      (Runnable ProfileCmd ''list'' [] None (LeafBody None)) (start Map.empty None)) = OsExit 1"
proof -
  let ?D = "scripted (None, Some ErrNotExist) None
      (Some (ErrorString ''no profile is configured'')) None"
  let ?W = "scripted (None, Some ErrNotExist) (Some ErrPermission) None None"
  let ?c0 = "\<lparr>Profiles = Some [''demo'' \<mapsto> defaultInitialProfile], DefaultProfile = ''demo''\<rparr>"
  let ?p1 = "emit (EvWriteConfig ?c0) (start Map.empty None)"
  let ?q1 = "emit (EvPrintf (''failed to write to file '' @ Error ErrPermission @ [CHR 0x0A]))
      (emit (EvWriteConfig ?c0) (start Map.empty None))"
  have b: "bootstrap ?D (start Map.empty None) = (None, ?p1)"
    by (simp add: bootstrap_scripted write_or_exit_scripted os_IsNotExist_def)
  have w: "bootstrap ?W (start Map.empty None) = (Some (OsExit 1), ?q1)"
    by (simp add: bootstrap_scripted write_or_exit_scripted os_IsNotExist_def)
  have t: "trace ?p1 = [EvWriteConfig ?c0]"
    by (simp add: emit_def start_def)
  note T = prerun_resolves_then_creates_ulid [OF b, where c = ProfileCmd and name = "''list''"
      and args = "[]" and req = None and bd = "LeafBody None"]
  from T t have 1: "trace (snd (Execute ?D (Runnable ProfileCmd ''list'' [] None (LeafBody None))
      ?p1)) = [EvWriteConfig ?c0, EvPreRunDefaultProfile]"
    by auto
  from T have 2: "fst (pb ?D (Runnable ProfileCmd ''list'' [] None (LeafBody None))
      (start Map.empty None)) = OsExit 1"
    by auto
  from prerun_resolves_then_creates_ulid [OF w,
      where disp = "Runnable ProfileCmd ''list'' [] None (LeafBody None)"]
  have 3: "fst (pb ?W (Runnable ProfileCmd ''list'' [] None (LeafBody None))
      (start Map.empty None)) = OsExit 1"
    by auto
  from 1 2 3 show ?thesis by blast
qed

text \<open>
  C5 as stated fails on the order: in a run where every step succeeds, the default
  profile is resolved before the session identity is created, not after.
\<close>

theorem ulid_follows_resolution:
  "trace (snd (pb (scripted (None, Some ErrNotExist) None None None)
      (Runnable ProfileCmd ''list'' [] None (LeafBody None)) (start Map.empty None))) =
     [EvWriteConfig \<lparr>Profiles = Some [''demo'' \<mapsto> defaultInitialProfile],
        DefaultProfile = ''demo''\<rparr>,
      EvPreRunDefaultProfile, EvCheckAndCreateULID, EvRun,
      EvPostRunAnalytics \<lparr>command = ''list'', category = ''profile'', arguments = []\<rparr>,
      EvWait] \<and>
   \<not> before EvCheckAndCreateULID EvPreRunDefaultProfile
     (trace (snd (pb (scripted (None, Some ErrNotExist) None None None)
      (Runnable ProfileCmd ''list'' [] None (LeafBody None)) (start Map.empty None))))"
proof -
  have "trace (snd (pb (scripted (None, Some ErrNotExist) None None None)
      (Runnable ProfileCmd ''list'' [] None (LeafBody None)) (start Map.empty None))) =
     [EvWriteConfig \<lparr>Profiles = Some [''demo'' \<mapsto> defaultInitialProfile],
        DefaultProfile = ''demo''\<rparr>,
      EvPreRunDefaultProfile, EvCheckAndCreateULID, EvRun,
      EvPostRunAnalytics \<lparr>command = ''list'', category = ''profile'', arguments = []\<rparr>,
      EvWait]"
    by (simp add: pb_def main_def bootstrap_scripted write_or_exit_scripted os_IsNotExist_def
        Execute.simps cobra_execute_def combinedPreRun_scripted emit_def
        PersistentPostRun_def postRun_def os_Getenv_def wg_Wait_def goroutine_def start_def)
  then show ?thesis by simp
qed

text \<open>
  C6, as the code has it. For a command that the framework runs, the dispatch hands
  exactly one telemetry task to the barrier (the command, the category of the hook and
  the arguments; one more on the counter, one goroutine started) when the pre-run hook
  succeeded, the framework's check of the required flags passed, the command body
  returned no error and \<^verbatim>\<open>PB_ANALYTICS\<close> is not \<^verbatim>\<open>disable\<close>; in every other case, a
  failed body among them, it hands over none. A dispatch that prints the help text, or
  that fails before a command is run, hands over none.
\<close>

theorem postrun_dispatches_after_success:
  "goroutines (snd (Execute (scripted rd wr pre ulid) (Runnable c name args req bd) p)) =
     goroutines p @
       (if (c = Cli \<or> pre = None) \<and> ulid = None \<and> req = None \<and> fst (run_body bd p) = None \<and>
           os_Getenv p ''PB_ANALYTICS'' \<noteq> ''disable''
        then [\<lparr>command = name, category = hook_category c, arguments = args\<rparr>] else []) \<and>
   wg (snd (Execute (scripted rd wr pre ulid) (Runnable c name args req bd) p)) =
     wg p +
       (if (c = Cli \<or> pre = None) \<and> ulid = None \<and> req = None \<and> fst (run_body bd p) = None \<and>
           os_Getenv p ''PB_ANALYTICS'' \<noteq> ''disable''
        then 1 else 0) \<and>
   (fst (Execute (scripted rd wr pre ulid) (Runnable c name args req bd) p) = None) =
     ((c = Cli \<or> pre = None) \<and> ulid = None \<and> req = None \<and> fst (run_body bd p) = None) \<and>
   goroutines (snd (Execute (scripted rd wr pre ulid) Help p)) = goroutines p \<and>
   wg (snd (Execute (scripted rd wr pre ulid) Help p)) = wg p \<and>
   goroutines (snd (Execute (scripted rd wr pre ulid) (Usage err) p)) = goroutines p \<and>
   wg (snd (Execute (scripted rd wr pre ulid) (Usage err) p)) = wg p"
proof -
  let ?D = "scripted rd wr pre ulid"
  let ?R = "Runnable c name args req bd"
  note res = Execute_result [of rd wr pre ulid c name args req bd p]
  from Execute_state [of rd wr pre ulid c name args req bd p]
  have "goroutines (snd (Execute ?D ?R p)) =
      goroutines p @
        (if fst (Execute ?D ?R p) = None \<and> os_Getenv p ''PB_ANALYTICS'' \<noteq> ''disable''
         then [\<lparr>command = name, category = hook_category c, arguments = args\<rparr>] else []) \<and>
    wg (snd (Execute ?D ?R p)) =
      wg p + (if fst (Execute ?D ?R p) = None \<and> os_Getenv p ''PB_ANALYTICS'' \<noteq> ''disable''
         then 1 else 0)"
    by auto
  then have a: "goroutines (snd (Execute ?D ?R p)) =
     goroutines p @
       (if (c = Cli \<or> pre = None) \<and> ulid = None \<and> req = None \<and> fst (run_body bd p) = None \<and>
           os_Getenv p ''PB_ANALYTICS'' \<noteq> ''disable''
        then [\<lparr>command = name, category = hook_category c, arguments = args\<rparr>] else []) \<and>
   wg (snd (Execute ?D ?R p)) =
     wg p +
       (if (c = Cli \<or> pre = None) \<and> ulid = None \<and> req = None \<and> fst (run_body bd p) = None \<and>
           os_Getenv p ''PB_ANALYTICS'' \<noteq> ''disable''
        then 1 else 0)"
    unfolding res by simp
  have h: "goroutines (snd (Execute ?D Help p)) = goroutines p \<and>
      wg (snd (Execute ?D Help p)) = wg p \<and>
      goroutines (snd (Execute ?D (Usage err) p)) = goroutines p \<and>
      wg (snd (Execute ?D (Usage err) p)) = wg p"
    by (simp add: Execute.simps emit_def)
  from a res h show ?thesis by blast
qed

theorem postrun_dispatches_after_success_witness:
  "goroutines (snd (Execute (scripted (None, Some ErrNotExist) None None None)
      (Runnable Cli ''pb'' [] None (RootBody [versionFlag \<mapsto> True])) (start Map.empty None))) =
     [\<lparr>command = ''pb'', category = ''cli'', arguments = []\<rparr>] \<and>
   wg (snd (Execute (scripted (None, Some ErrNotExist) None None None)
      (Runnable Cli ''pb'' [] None (RootBody [versionFlag \<mapsto> True])) (start Map.empty None))) = 1 \<and>
   goroutines (snd (Execute (scripted (None, Some ErrNotExist) None None None)
      (Runnable Query ''query'' [''select 1''] None (LeafBody (Some (ErrorString ''no such stream''))))
      (start Map.empty None))) = []"
proof -
  have env: "os_Getenv (start Map.empty None) ''PB_ANALYTICS'' \<noteq> ''disable''"
    by (simp add: os_Getenv_def start_def)
  have z: "goroutines (start Map.empty None) = [] \<and> wg (start Map.empty None) = 0"
    by (simp add: start_def)
  have ok: "fst (run_body (RootBody [versionFlag \<mapsto> True]) (start Map.empty None)) = None"
    by (simp add: cli_RunE_eq)
  from postrun_dispatches_after_success [of "(None, Some ErrNotExist)" None None None Cli
      "''pb''" "[]" None "RootBody [versionFlag \<mapsto> True]" "start Map.empty None"] env z ok
  have 1: "goroutines (snd (Execute (scripted (None, Some ErrNotExist) None None None)
      (Runnable Cli ''pb'' [] None (RootBody [versionFlag \<mapsto> True])) (start Map.empty None))) =
     [\<lparr>command = ''pb'', category = ''cli'', arguments = []\<rparr>] \<and>
   wg (snd (Execute (scripted (None, Some ErrNotExist) None None None)
      (Runnable Cli ''pb'' [] None (RootBody [versionFlag \<mapsto> True])) (start Map.empty None))) = 1"
    by simp
  from postrun_dispatches_after_success [of "(None, Some ErrNotExist)" None None None Query
      "''query''" "[''select 1'']" None "LeafBody (Some (ErrorString ''no such stream''))"
      "start Map.empty None"] z
  have 2: "goroutines (snd (Execute (scripted (None, Some ErrNotExist) None None None)
      (Runnable Query ''query'' [''select 1''] None (LeafBody (Some (ErrorString ''no such stream''))))
      (start Map.empty None))) = []"
    by simp
  from 1 2 show ?thesis by blast
qed

text \<open>
  C6 as stated fails: telemetry is not disabled, the body of the root command runs and
  fails, and no telemetry task is dispatched; the process exits with status 1.
\<close>

theorem failed_body_dispatches_nothing:
  "fst (Execute (scripted (None, Some ErrNotExist) None None None)
      (Runnable Cli ''pb'' [] None (RootBody [versionFlag \<mapsto> False])) (start Map.empty None)) =
     Some (ErrorString ''no command or flag supplied'') \<and>
   goroutines (snd (Execute (scripted (None, Some ErrNotExist) None None None)
      (Runnable Cli ''pb'' [] None (RootBody [versionFlag \<mapsto> False])) (start Map.empty None))) =
     [] \<and>
   os_Getenv (start Map.empty None) ''PB_ANALYTICS'' \<noteq> ''disable'' \<and>
   pb (scripted (None, Some ErrNotExist) None None None)
      (Runnable Cli ''pb'' [] None (RootBody [versionFlag \<mapsto> False])) (start Map.empty None) =
     (OsExit 1,
      \<lparr>environ = Map.empty, wg = 0, goroutines = [],
       trace = [EvWriteConfig \<lparr>Profiles = Some [''demo'' \<mapsto> defaultInitialProfile],
         DefaultProfile = ''demo''\<rparr>, EvCheckAndCreateULID, EvRun],
       config_file = None\<rparr>)"
  by (simp add: pb_def main_def bootstrap_scripted write_or_exit_scripted os_IsNotExist_def
      Execute.simps cobra_execute_def scripted_sel extern_def emit_def cli_RunE_eq
      os_Getenv_def start_def)

section \<open>Telemetry opt-out and the root command\<close>

text \<open>
  C7: when \<^verbatim>\<open>PB_ANALYTICS\<close> is \<^verbatim>\<open>disable\<close>, the post-run hook of every command
  changes nothing: no task is registered on the barrier, a wait that follows (no
  goroutine being open before) makes no call of the telemetry sink, and with the counter
  at zero it returns at once. With any other value, or with the variable unset, the hook
  adds one to the barrier and starts one task.
\<close>

theorem analytics_disable_is_noop:
  "(environ p ''PB_ANALYTICS'' = Some ''disable'' \<longrightarrow>
      PersistentPostRun c name args p = p \<and>
      (goroutines p = [] \<longrightarrow>
        sent (trace (snd (wg_Wait (PersistentPostRun c name args p)))) = sent (trace p) \<and>
        (wg p = 0 \<longrightarrow>
          wg_Wait (PersistentPostRun c name args p) = (True, emit EvWait p) \<and>
          trace (snd (wg_Wait (PersistentPostRun c name args p))) = trace p @ [EvWait]))) \<and>
   (environ p ''PB_ANALYTICS'' \<noteq> Some ''disable'' \<longrightarrow>
      wg (PersistentPostRun c name args p) = wg p + 1 \<and>
      goroutines (PersistentPostRun c name args p) =
        goroutines p @ [\<lparr>command = name, category = hook_category c, arguments = args\<rparr>])"
proof -
  have w: "sent (trace (snd (wg_Wait p))) = sent (trace p)" if "goroutines p = []"
  proof (cases "wg p = 0")
    case True
    then show ?thesis by (simp add: wg_Wait_zero emit_def sent_append)
  next
    case False
    with that show ?thesis by (simp add: wg_Wait_blocks)
  qed
  have z: "wg_Wait p = (True, emit EvWait p) \<and> trace (snd (wg_Wait p)) = trace p @ [EvWait]"
    if "wg p = 0"
    using that by (simp add: wg_Wait_zero emit_def)
  show ?thesis
    using getenv_disable [of p] w z
    by (simp add: PersistentPostRun_def postRun_def trace_emit)
qed

theorem analytics_disable_is_noop_witness:
  "PersistentPostRun Query ''query'' [''select 1''] (start [''PB_ANALYTICS'' \<mapsto> ''disable''] None) =
     start [''PB_ANALYTICS'' \<mapsto> ''disable''] None \<and>
   trace (snd (wg_Wait (PersistentPostRun Query ''query'' [''select 1'']
     (start [''PB_ANALYTICS'' \<mapsto> ''disable''] None)))) = [EvWait] \<and>
   wg (PersistentPostRun Query ''query'' [''select 1'']
     (start [''PB_ANALYTICS'' \<mapsto> ''disabled''] None)) = 1 \<and>
   goroutines (PersistentPostRun Query ''query'' [''select 1''] (start Map.empty None)) =
     [\<lparr>command = ''query'', category = ''query'', arguments = [''select 1'']\<rparr>]"
proof -
  have a: "environ (start [''PB_ANALYTICS'' \<mapsto> ''disable''] None) ''PB_ANALYTICS'' =
      Some ''disable''"
    by (simp add: start_def)
  have b: "environ (start [''PB_ANALYTICS'' \<mapsto> ''disabled''] None) ''PB_ANALYTICS'' \<noteq>
      Some ''disable''"
    by (simp add: start_def)
  have c: "environ (start Map.empty None) ''PB_ANALYTICS'' \<noteq> Some ''disable''"
    by (simp add: start_def)
  have z: "goroutines (start e None) = [] \<and> wg (start e None) = 0 \<and> trace (start e None) = []"
    for e
    by (simp add: start_def)
  from analytics_disable_is_noop [of "start [''PB_ANALYTICS'' \<mapsto> ''disable''] None" Query
      "''query''" "[''select 1'']"] a z
  have 1: "PersistentPostRun Query ''query'' [''select 1'']
      (start [''PB_ANALYTICS'' \<mapsto> ''disable''] None) =
      start [''PB_ANALYTICS'' \<mapsto> ''disable''] None \<and>
    trace (snd (wg_Wait (PersistentPostRun Query ''query'' [''select 1'']
      (start [''PB_ANALYTICS'' \<mapsto> ''disable''] None)))) = [EvWait]"
    by (simp add: wg_Wait_zero emit_def)
  from analytics_disable_is_noop [of "start [''PB_ANALYTICS'' \<mapsto> ''disabled''] None" Query
      "''query''" "[''select 1'']"] b z
  have 2: "wg (PersistentPostRun Query ''query'' [''select 1'']
      (start [''PB_ANALYTICS'' \<mapsto> ''disabled''] None)) = 1"
    by simp
  from analytics_disable_is_noop [of "start Map.empty None" Query
      "''query''" "[''select 1'']"] c z
  have 3: "goroutines (PersistentPostRun Query ''query'' [''select 1''] (start Map.empty None)) =
      [\<lparr>command = ''query'', category = ''query'', arguments = [''select 1'']\<rparr>]"
    by simp
  from 1 2 3 show ?thesis by blast
qed

text \<open>
  C10, as the code has it. When the root command itself is run (no subcommand, no help
  flag), the session-identity hook of the root runs first. If it succeeds, the body of
  the root runs and returns the error \<open>no command or flag supplied\<close>, and the process
  exits with status 1, unless the version flag is set: then the body prints the version
  and returns no error, and the process returns with status 0. If the hook fails, the
  body does not run: the dispatch returns the error of the hook and the process exits
  with status 1 without printing the version, whether or not the version flag is set.
  When the bootstrap ends the process, nothing of this runs.
\<close>

theorem root_needs_command_or_version:
  assumes "bootstrap (scripted rd wr pre ulid) (start env f) = (b, p1)"
  shows "fst (Execute (scripted rd wr pre ulid) (Runnable Cli name args None (RootBody fl)) p1) =
      (case ulid of
         Some e \<Rightarrow> Some e
       | None \<Rightarrow>
           if fl versionFlag = Some True then None
           else Some (ErrorString ''no command or flag supplied'')) \<and>
    trace (snd (Execute (scripted rd wr pre ulid) (Runnable Cli name args None (RootBody fl)) p1)) =
      trace p1 @ EvCheckAndCreateULID #
        (if ulid = None
         then EvRun # (if fl versionFlag = Some True then [EvPrintVersion] else [])
         else []) \<and>
    fst (pb (scripted rd wr pre ulid) (Runnable Cli name args None (RootBody fl)) (start env f)) =
      (case b of
         Some e \<Rightarrow> e
       | None \<Rightarrow> if ulid = None \<and> fl versionFlag = Some True then Returned else OsExit 1)"
proof -
  let ?D = "scripted rd wr pre ulid"
  let ?R = "Runnable Cli name args None (RootBody fl)"
  have E: "Execute ?D ?R p1 =
      (case ulid of
         Some e \<Rightarrow> (Some e, emit EvCheckAndCreateULID p1)
       | None \<Rightarrow>
           if fl versionFlag = Some True
           then (None, PersistentPostRun Cli name args
             (emit EvPrintVersion (emit EvRun (emit EvCheckAndCreateULID p1))))
           else (Some (ErrorString ''no command or flag supplied''),
             emit EvRun (emit EvCheckAndCreateULID p1)))"
    by (simp add: Execute.simps cobra_execute_def scripted_sel extern_def cli_RunE_eq
        split: option.splits)
  have 1: "fst (Execute ?D ?R p1) =
      (case ulid of
         Some e \<Rightarrow> Some e
       | None \<Rightarrow>
           if fl versionFlag = Some True then None
           else Some (ErrorString ''no command or flag supplied''))"
    unfolding E by (simp split: option.splits)
  have 2: "trace (snd (Execute ?D ?R p1)) =
      trace p1 @ EvCheckAndCreateULID #
        (if ulid = None
         then EvRun # (if fl versionFlag = Some True then [EvPrintVersion] else [])
         else [])"
    unfolding E
    by (simp add: emit_def PersistentPostRun_def postRun_fields split: option.splits)
  obtain r p2 where X: "Execute ?D ?R p1 = (r, p2)" by (cases "Execute ?D ?R p1")
  have s0: "wg (start env f) = length (goroutines (start env f))"
    by (simp add: start_def)
  from pb_scripted [OF assms X s0]
  have "fst (pb ?D ?R (start env f)) =
      (case b of Some e \<Rightarrow> e | None \<Rightarrow> (case r of Some err \<Rightarrow> OsExit 1 | None \<Rightarrow> Returned))"
    by (simp split: option.splits)
  moreover have "r = (case ulid of
         Some e \<Rightarrow> Some e
       | None \<Rightarrow>
           if fl versionFlag = Some True then None
           else Some (ErrorString ''no command or flag supplied''))"
    using 1 X by simp
  ultimately have 3: "fst (pb ?D ?R (start env f)) =
      (case b of
         Some e \<Rightarrow> e
       | None \<Rightarrow> if ulid = None \<and> fl versionFlag = Some True then Returned else OsExit 1)"
    by (simp split: option.splits)
  from 1 2 3 show ?thesis by blast
qed

theorem root_needs_command_or_version_witness:
  "fst (Execute (scripted (None, Some ErrNotExist) None None None)
      (Runnable Cli ''pb'' [] None (RootBody [versionFlag \<mapsto> False]))
      (emit (EvWriteConfig \<lparr>Profiles = Some [''demo'' \<mapsto> defaultInitialProfile],
         DefaultProfile = ''demo''\<rparr>) (start Map.empty None))) =
     Some (ErrorString ''no command or flag supplied'') \<and>
   fst (pb (scripted (None, Some ErrNotExist) None None None)
      (Runnable Cli ''pb'' [] None (RootBody [versionFlag \<mapsto> False])) (start Map.empty None)) =
     OsExit 1 \<and>
   fst (pb (scripted (None, Some ErrNotExist) None None None)
      (Runnable Cli ''pb'' [] None (RootBody [versionFlag \<mapsto> True])) (start Map.empty None)) =
     Returned \<and>
   trace (snd (Execute (scripted (None, Some ErrNotExist) None None None)
      (Runnable Cli ''pb'' [] None (RootBody [versionFlag \<mapsto> True]))
      (emit (EvWriteConfig \<lparr>Profiles = Some [''demo'' \<mapsto> defaultInitialProfile],
         DefaultProfile = ''demo''\<rparr>) (start Map.empty None)))) =
     [EvWriteConfig \<lparr>Profiles = Some [''demo'' \<mapsto> defaultInitialProfile],
        DefaultProfile = ''demo''\<rparr>, EvCheckAndCreateULID, EvRun, EvPrintVersion]"
proof -
  let ?D = "scripted (None, Some ErrNotExist) None None None"
  let ?c0 = "\<lparr>Profiles = Some [''demo'' \<mapsto> defaultInitialProfile], DefaultProfile = ''demo''\<rparr>"
  let ?p1 = "emit (EvWriteConfig ?c0) (start Map.empty None)"
  have b: "bootstrap ?D (start Map.empty None) = (None, ?p1)"
    by (simp add: bootstrap_scripted write_or_exit_scripted os_IsNotExist_def)
  have t: "trace ?p1 = [EvWriteConfig ?c0]"
    by (simp add: emit_def start_def)
  from root_needs_command_or_version [OF b, of "''pb''" "[]" "[versionFlag \<mapsto> False]"]
  have 1: "fst (Execute ?D (Runnable Cli ''pb'' [] None (RootBody [versionFlag \<mapsto> False])) ?p1) =
      Some (ErrorString ''no command or flag supplied'') \<and>
    fst (pb ?D (Runnable Cli ''pb'' [] None (RootBody [versionFlag \<mapsto> False]))
      (start Map.empty None)) = OsExit 1"
    by simp
  from root_needs_command_or_version [OF b, of "''pb''" "[]" "[versionFlag \<mapsto> True]"] t
  have 2: "fst (pb ?D (Runnable Cli ''pb'' [] None (RootBody [versionFlag \<mapsto> True]))
      (start Map.empty None)) = Returned \<and>
    trace (snd (Execute ?D (Runnable Cli ''pb'' [] None (RootBody [versionFlag \<mapsto> True])) ?p1)) =
      [EvWriteConfig ?c0, EvCheckAndCreateULID, EvRun, EvPrintVersion]"
    by simp
  from 1 2 show ?thesis by blast
qed

text \<open>
  C10 as stated fails: the root command is invoked with the version flag set and the
  session-identity hook fails; the version is not printed and the process exits with
  status 1.
\<close>

theorem version_not_printed_when_ulid_fails:
  "pb (scripted (None, Some ErrNotExist) None None (Some ErrPermission))
      (Runnable Cli ''pb'' [] None (RootBody [versionFlag \<mapsto> True])) (start Map.empty None) =
     (OsExit 1,
      \<lparr>environ = Map.empty, wg = 0, goroutines = [],
       trace = [EvWriteConfig \<lparr>Profiles = Some [''demo'' \<mapsto> defaultInitialProfile],
         DefaultProfile = ''demo''\<rparr>, EvCheckAndCreateULID],
       config_file = None\<rparr>) \<and>
   fst (Execute (scripted (None, Some ErrNotExist) None None (Some ErrPermission))
      (Runnable Cli ''pb'' [] None (RootBody [versionFlag \<mapsto> True]))
      (emit (EvWriteConfig \<lparr>Profiles = Some [''demo'' \<mapsto> defaultInitialProfile],
         DefaultProfile = ''demo''\<rparr>) (start Map.empty None))) = Some ErrPermission"
  by (simp add: pb_def main_def bootstrap_scripted write_or_exit_scripted os_IsNotExist_def
      Execute.simps cobra_execute_def scripted_sel extern_def emit_def start_def)

end
